theory Spec2Isabelle
  imports Main "HOL-Library.AList"
begin

section \<open>Python values and built-ins used by excelsync\<close>

text \<open>
  The exceptions that the modelled code (or the library calls it makes) can raise.
  A function that can raise returns \<open>error + 'a\<close>, with \<open>Inl\<close> for the exception.
  \<open>ReaderError\<close> stands for whatever exception \<open>openpyxl.load_workbook\<close> or \<open>json.load\<close>
  raises on a file that is not of its format; which one it is depends on the name and the
  bytes of the file, which are not modelled.
\<close>

datatype error = ValueError | KeyError | FileNotFoundError | ReaderError

text \<open>
  A Python \<open>float\<close>. The code never computes with floats: it only asks whether one is
  zero (truthiness), whether it is integral (the schema validator's \<open>integer\<close> type) and
  for its \<open>repr\<close>. As \<open>repr\<close> is injective on floats, a float is represented by these three
  observations.
\<close>

datatype pyfloat = PyFloat (fl_repr: string) (fl_nonzero: bool) (fl_integral: bool)

text \<open>
  The value of a worksheet cell as openpyxl hands it out: \<open>None\<close>, \<open>bool\<close>, \<open>int\<close>,
  \<open>float\<close>, \<open>str\<close>, or an object of another runtime type (\<open>datetime\<close>, \<open>time\<close>,
  \<open>timedelta\<close>, ...), of which the code observes the type name, the truth value and \<open>str\<close>.
\<close>

datatype cell_value =
    VNone
  | VBool bool
  | VInt int
  | VFloat pyfloat
  | VStr string
  | VOther (type_name: string) (other_truth: bool) (other_str: string)

text \<open>\<open>isinstance\<close>: in Python \<open>bool\<close> is a subclass of \<open>int\<close>.\<close>

fun isinstance_bool :: "cell_value \<Rightarrow> bool" where
  "isinstance_bool (VBool b) = True"
| "isinstance_bool v = False"

fun isinstance_int :: "cell_value \<Rightarrow> bool" where
  "isinstance_int (VBool b) = True"
| "isinstance_int (VInt n) = True"
| "isinstance_int v = False"

fun isinstance_float :: "cell_value \<Rightarrow> bool" where
  "isinstance_float (VFloat f) = True"
| "isinstance_float v = False"

fun isinstance_str :: "cell_value \<Rightarrow> bool" where
  "isinstance_str (VStr s) = True"
| "isinstance_str v = False"

text \<open>Truth value of a cell value, as \<open>if cell.value:\<close> tests it.\<close>

fun truthy :: "cell_value \<Rightarrow> bool" where
  "truthy VNone = False"
| "truthy (VBool b) = b"
| "truthy (VInt n) = (n \<noteq> 0)"
| "truthy (VFloat f) = fl_nonzero f"
| "truthy (VStr s) = (s \<noteq> [])"
| "truthy (VOther tn t s) = t"

text \<open>\<open>str\<close> of an \<open>int\<close>: decimal digits, with a minus sign for a negative number.\<close>

definition digit_char :: "nat \<Rightarrow> char" where
  "digit_char d = ''0123456789'' ! d"

fun str_nat :: "nat \<Rightarrow> string" where
  "str_nat n = (if n < 10 then [digit_char n] else str_nat (n div 10) @ [digit_char (n mod 10)])"

declare str_nat.simps [simp del]

definition str_int :: "int \<Rightarrow> string" where
  "str_int i = (if i < 0 then CHR ''-'' # str_nat (nat (- i)) else str_nat (nat i))"

fun py_str :: "cell_value \<Rightarrow> string" where
  "py_str VNone = ''None''"
| "py_str (VBool b) = (if b then ''True'' else ''False'')"
| "py_str (VInt n) = str_int n"
| "py_str (VFloat f) = fl_repr f"
| "py_str (VStr s) = s"
| "py_str (VOther tn t s) = s"

text \<open>\<open>str.lower\<close> on the ASCII letters, and the substring test \<open>needle in haystack\<close>.\<close>

definition lower_char :: "char \<Rightarrow> char" where
  "lower_char c =
     (case map_of (zip ''ABCDEFGHIJKLMNOPQRSTUVWXYZ'' ''abcdefghijklmnopqrstuvwxyz'') c of
        None \<Rightarrow> c
      | Some l \<Rightarrow> l)"

definition lower :: "string \<Rightarrow> string" where
  "lower s = map lower_char s"

fun startswith :: "string \<Rightarrow> string \<Rightarrow> bool" where
  "startswith s [] = True"
| "startswith [] (p # ps) = False"
| "startswith (c # cs) (p # ps) = (c = p \<and> startswith cs ps)"

fun str_contains :: "string \<Rightarrow> string \<Rightarrow> bool" where
  "str_contains [] needle = (needle = [])"
| "str_contains (c # cs) needle = (startswith (c # cs) needle \<or> str_contains cs needle)"

section \<open>ExcelSync._detect_data_type\<close>

definition detect_data_type :: "cell_value \<Rightarrow> string" where
  "detect_data_type v =
     (if v = VNone then ''null''
      else if isinstance_bool v then ''boolean''
      else if isinstance_int v then ''integer''
      else if isinstance_float v then ''number''
      else if isinstance_str v then
        (if list_ex (\<lambda>date_indicator. str_contains (lower (py_str v)) date_indicator)
              [''/'', ''-'', ''date'', ''time'']
         then ''datetime'' else ''string'')
      else type_name v)"

subsection \<open>The classification rules of the specification\<close>

text \<open>
  The six classification rules in the order the specification lists them, each a test and
  the tag it gives. Rule 3 is Python's own test for an integral number, which a boolean
  passes as well; rule 6 always applies.
\<close>

definition text_tag :: "cell_value \<Rightarrow> string" where
  "text_tag v =
     (if str_contains (lower (py_str v)) ''/'' \<or> str_contains (lower (py_str v)) ''-''
         \<or> str_contains (lower (py_str v)) ''date'' \<or> str_contains (lower (py_str v)) ''time''
      then ''datetime'' else ''string'')"

definition classification_rules :: "((cell_value \<Rightarrow> bool) \<times> (cell_value \<Rightarrow> string)) list" where
  "classification_rules =
     [((\<lambda>v. v = VNone), (\<lambda>v. ''null'')),
      (isinstance_bool, (\<lambda>v. ''boolean'')),
      (isinstance_int, (\<lambda>v. ''integer'')),
      (isinstance_float, (\<lambda>v. ''number'')),
      (isinstance_str, text_tag),
      ((\<lambda>v. True), type_name)]"

text \<open>Strict priority: the tag of the first rule whose test the value passes.\<close>

fun first_matching_rule ::
  "((cell_value \<Rightarrow> bool) \<times> (cell_value \<Rightarrow> string)) list \<Rightarrow> cell_value \<Rightarrow> string option"
where
  "first_matching_rule [] v = None"
| "first_matching_rule ((test, tag) # rules) v =
     (if test v then Some (tag v) else first_matching_rule rules v)"

section \<open>The workbook, as openpyxl exposes it\<close>

text \<open>
  A worksheet: its largest populated row and column, its cell grid (a cell that was never
  written has the value \<open>None\<close>) and the textual form of its merged ranges. A workbook: its
  worksheets in order, keyed by title, and its defined names (name and \<open>attr_text\<close>), absent
  when the workbook object has no such attribute.
\<close>

record worksheet =
  max_row :: int
  max_column :: int
  cells :: "(int \<times> int) \<rightharpoonup> cell_value"
  ws_merged_cells :: "string list"

record workbook =
  worksheets :: "(string \<times> worksheet) list"
  defined_names :: "(string \<times> string) list option"

definition sheetnames :: "workbook \<Rightarrow> string list" where
  "sheetnames wb = map fst (worksheets wb)"

text \<open>\<open>workbook[sheet_name]\<close>: the first worksheet with that title, else \<open>KeyError\<close>.\<close>

definition workbook_getitem :: "workbook \<Rightarrow> string \<Rightarrow> error + worksheet" where
  "workbook_getitem wb sheet_name =
     (case map_of (worksheets wb) sheet_name of None \<Rightarrow> Inl KeyError | Some sheet \<Rightarrow> Inr sheet)"

definition cell_value_at :: "worksheet \<Rightarrow> int \<Rightarrow> int \<Rightarrow> cell_value" where
  "cell_value_at sheet r c = (case cells sheet (r, c) of None \<Rightarrow> VNone | Some v \<Rightarrow> v)"

text \<open>\<open>sheet.cell(row=r, column=c).value\<close>: openpyxl raises \<open>ValueError\<close> for an index below 1.\<close>

definition sheet_cell :: "worksheet \<Rightarrow> int \<Rightarrow> int \<Rightarrow> error + cell_value" where
  "sheet_cell sheet r c = (if r < 1 \<or> c < 1 then Inl ValueError else Inr (cell_value_at sheet r c))"

text \<open>
  \<open>openpyxl.utils.get_column_letter\<close>: base-26 letters without a zero digit, defined for
  1 to 18278 (\<open>A\<close> to \<open>ZZZ\<close>), \<open>ValueError\<close> otherwise.
\<close>

definition letter_char :: "nat \<Rightarrow> char" where
  "letter_char r = ''ABCDEFGHIJKLMNOPQRSTUVWXYZ'' ! (r - 1)"

fun column_letters :: "nat \<Rightarrow> string" where
  "column_letters n =
     (if n = 0 then []
      else if n mod 26 = 0 then column_letters (n div 26 - 1) @ [letter_char 26]
      else column_letters (n div 26) @ [letter_char (n mod 26)])"

declare column_letters.simps [simp del]

definition get_column_letter :: "int \<Rightarrow> error + string" where
  "get_column_letter col_idx =
     (if 1 \<le> col_idx \<and> col_idx \<le> 18278 then Inr (column_letters (nat col_idx)) else Inl ValueError)"

section \<open>The structure document\<close>

text \<open>
  The nested dictionary that \<open>extract_structure\<close> builds and that \<open>json.load\<close> reads back.
  Dictionaries are association lists in insertion order, written with \<open>AList.update\<close> and
  read with \<open>map_of\<close>. A key the code reads with \<open>.get\<close> or tests with \<open>in\<close> is an optional
  field. A column key is an \<open>int\<close> in an extracted document and a \<open>str\<close> in one that came
  through JSON.
\<close>

datatype key = KInt int | KStr string

record header_info =
  name :: "string option"
  column_letter :: "string option"
  data_type :: "string option"

record sheet_structure =
  columns :: "(key \<times> header_info) list"
  rows :: int
  columns_count :: int
  merged_cells :: "string list"
  headers :: "(key \<times> header_info) list option"

record file_props =
  filename :: "string option"
  sheet_count :: "int option"
  header_row :: "int option"

record structure_dict =
  sheets :: "(string \<times> sheet_structure) list option"
  named_ranges :: "(string \<times> string) list option"
  file_properties :: "file_props option"

section \<open>ExcelSchema and ExcelSync instances\<close>

text \<open>An \<open>ExcelSchema\<close> instance; its attribute \<open>structure\<close> is the field \<open>schema_structure\<close>.\<close>

record excel_schema =
  schema_structure :: structure_dict

text \<open>\<open>ExcelSchema.__init__\<close>: \<open>structure or {...}\<close> takes the default for \<open>None\<close> and for \<open>{}\<close>.\<close>

definition empty_dict :: structure_dict where
  "empty_dict = \<lparr>sheets = None, named_ranges = None, file_properties = None\<rparr>"

definition ExcelSchema_init :: "structure_dict option \<Rightarrow> excel_schema" where
  "ExcelSchema_init st =
     \<lparr>schema_structure =
        (if st = None \<or> st = Some empty_dict
         then \<lparr>sheets = Some [], named_ranges = Some [],
               file_properties = Some \<lparr>filename = None, sheet_count = None, header_row = None\<rparr>\<rparr>
         else the st)\<rparr>"

text \<open>
  An \<open>ExcelSync\<close> instance. The attribute \<open>header_row\<close> is the field \<open>self_header_row\<close>
  (the document key of the same name is \<open>header_row\<close>).
\<close>

record excel_sync =
  excel_file :: string
  workbook :: workbook
  schema :: excel_schema
  self_header_row :: int

text \<open>\<open>Path.name\<close>: the last component of the path.\<close>

definition path_name :: "string \<Rightarrow> string" where
  "path_name p = rev (takeWhile (\<lambda>c. c \<noteq> CHR ''/'') (rev p))"

section \<open>ExcelSync.extract_structure\<close>

text \<open>
  The loop over \<open>range(1, sheet.max_column + 1)\<close> that fills the local dictionary
  \<open>headers\<close>; its keys are the \<open>int\<close> column indices.
\<close>

fun header_loop ::
  "worksheet \<Rightarrow> int \<Rightarrow> int list \<Rightarrow> (int \<times> header_info) list \<Rightarrow> error + (int \<times> header_info) list"
where
  "header_loop sheet hr [] hs = Inr hs"
| "header_loop sheet hr (col # cols) hs =
     (case sheet_cell sheet hr col of
        Inl e \<Rightarrow> Inl e
      | Inr v \<Rightarrow>
          if truthy v then
            (case get_column_letter col of
               Inl e \<Rightarrow> Inl e
             | Inr l \<Rightarrow>
                 header_loop sheet hr cols
                   (AList.update col
                      \<lparr>name = Some (py_str v), column_letter = Some l, data_type = None\<rparr> hs))
          else header_loop sheet hr cols hs)"

text \<open>
  The loop \<open>for col in headers\<close> that stores \<open>data_type\<close> into every header of the same
  dictionary, from the cell of that column in the data row.
\<close>

fun data_type_loop ::
  "worksheet \<Rightarrow> int \<Rightarrow> int list \<Rightarrow> (int \<times> header_info) list \<Rightarrow> error + (int \<times> header_info) list"
where
  "data_type_loop sheet dr [] hs = Inr hs"
| "data_type_loop sheet dr (col # cols) hs =
     (case sheet_cell sheet dr col of
        Inl e \<Rightarrow> Inl e
      | Inr first_value \<Rightarrow>
          data_type_loop sheet dr cols
            (AList.map_entry col (\<lambda>h. h\<lparr>data_type := Some (detect_data_type first_value)\<rparr>) hs))"

definition int_keys :: "(int \<times> header_info) list \<Rightarrow> (key \<times> header_info) list" where
  "int_keys hs = map (\<lambda>(col, h). (KInt col, h)) hs"

definition extract_sheet :: "worksheet \<Rightarrow> int \<Rightarrow> error + sheet_structure" where
  "extract_sheet sheet hr =
     (let data_row = hr + 1;
          sheet_structure =
            \<lparr>columns = [], rows = max_row sheet, columns_count = max_column sheet,
             merged_cells = ws_merged_cells sheet, headers = None\<rparr>
      in if max_row sheet \<ge> hr \<and> max_column sheet > 0 then
           (case header_loop sheet hr [1..max_column sheet] [] of
              Inl e \<Rightarrow> Inl e
            | Inr hs \<Rightarrow>
                if max_row sheet \<ge> data_row then
                  (case data_type_loop sheet data_row (map fst hs) hs of
                     Inl e \<Rightarrow> Inl e
                   | Inr hs' \<Rightarrow> Inr (sheet_structure\<lparr>headers := Some (int_keys hs')\<rparr>))
                else Inr (sheet_structure\<lparr>headers := Some (int_keys hs)\<rparr>))
         else Inr sheet_structure)"

fun sheets_loop ::
  "workbook \<Rightarrow> int \<Rightarrow> string list \<Rightarrow> (string \<times> sheet_structure) list
     \<Rightarrow> error + (string \<times> sheet_structure) list"
where
  "sheets_loop wb hr [] acc = Inr acc"
| "sheets_loop wb hr (sheet_name # rest) acc =
     (case workbook_getitem wb sheet_name of
        Inl e \<Rightarrow> Inl e
      | Inr sheet \<Rightarrow>
          (case extract_sheet sheet hr of
             Inl e \<Rightarrow> Inl e
           | Inr sheet_structure \<Rightarrow>
               sheets_loop wb hr rest (AList.update sheet_name sheet_structure acc)))"

text \<open>The header row a call works with: the override, or else the instance's attribute.\<close>

definition effective_header_row :: "excel_sync \<Rightarrow> int option \<Rightarrow> int" where
  "effective_header_row self hr_arg = (case hr_arg of None \<Rightarrow> self_header_row self | Some h \<Rightarrow> h)"

definition extract_named_ranges :: "workbook \<Rightarrow> (string \<times> string) list" where
  "extract_named_ranges wb =
     (case defined_names wb of
        None \<Rightarrow> []
      | Some dn \<Rightarrow> foldl (\<lambda>acc (n, attr_text). AList.update n attr_text acc) [] dn)"

definition extract_structure :: "excel_sync \<Rightarrow> int option \<Rightarrow> error + structure_dict" where
  "extract_structure self hr_arg =
     (let hr = effective_header_row self hr_arg;
          wb = workbook self
      in case sheets_loop wb hr (sheetnames wb) [] of
           Inl e \<Rightarrow> Inl e
         | Inr shs \<Rightarrow>
             Inr \<lparr>sheets = Some shs,
                  named_ranges = Some (extract_named_ranges wb),
                  file_properties =
                    Some \<lparr>filename = Some (path_name (excel_file self)),
                          sheet_count = Some (int (length (sheetnames wb))),
                          header_row = Some hr\<rparr>\<rparr>)"

section \<open>ExcelSync.validate_structure\<close>

text \<open>
  \<open>int(s)\<close> for a string, where a \<open>char\<close> stands for a code point below 256: whitespace
  at both ends is dropped, then come an optional sign and decimal digits, where single
  underscores may stand between digits; anything else raises \<open>ValueError\<close>. The whitespace
  of \<open>int\<close> is tab, line feed, vertical tab, form feed, carriage return and space, and of
  the code points from 127 on those that Unicode counts as spaces (U+0085 and U+00A0 below
  256); the separators U+001C to U+001F are not dropped.
\<close>

definition is_space :: "char \<Rightarrow> bool" where
  "is_space c \<longleftrightarrow>
     c \<in> set [CHR 0x09, CHR 0x0A, CHR 0x0B, CHR 0x0C, CHR 0x0D, CHR 0x20, CHR 0x85, CHR 0xA0]"

definition strip :: "string \<Rightarrow> string" where
  "strip s = rev (dropWhile is_space (rev (dropWhile is_space s)))"

definition digit_value :: "char \<Rightarrow> nat option" where
  "digit_value c = map_of (zip ''0123456789'' [0, 1, 2, 3, 4, 5, 6, 7, 8, 9]) c"

fun digits_loop :: "nat \<Rightarrow> string \<Rightarrow> error + nat" where
  "digits_loop acc [] = Inr acc"
| "digits_loop acc [c] =
     (case digit_value c of None \<Rightarrow> Inl ValueError | Some d \<Rightarrow> Inr (10 * acc + d))"
| "digits_loop acc (c # c' # cs) =
     (case digit_value c of
        Some d \<Rightarrow> digits_loop (10 * acc + d) (c' # cs)
      | None \<Rightarrow>
          if c = CHR ''_'' then
            (case digit_value c' of
               None \<Rightarrow> Inl ValueError
             | Some d' \<Rightarrow> digits_loop (10 * acc + d') cs)
          else Inl ValueError)"

definition parse_digits :: "string \<Rightarrow> error + nat" where
  "parse_digits s =
     (case s of
        [] \<Rightarrow> Inl ValueError
      | c # cs \<Rightarrow>
          (case digit_value c of None \<Rightarrow> Inl ValueError | Some d \<Rightarrow> digits_loop d cs))"

definition py_int :: "string \<Rightarrow> error + int" where
  "py_int s =
     (case strip s of
        [] \<Rightarrow> Inl ValueError
      | c # cs \<Rightarrow>
          if c = CHR ''-'' then
            (case parse_digits cs of Inl e \<Rightarrow> Inl e | Inr n \<Rightarrow> Inr (- int n))
          else if c = CHR ''+'' then
            (case parse_digits cs of Inl e \<Rightarrow> Inl e | Inr n \<Rightarrow> Inr (int n))
          else
            (case parse_digits (c # cs) of Inl e \<Rightarrow> Inl e | Inr n \<Rightarrow> Inr (int n)))"

text \<open>\<open>col = int(col) if isinstance(col, str) else col\<close>\<close>

definition coerce_col :: "key \<Rightarrow> error + int" where
  "coerce_col col = (case col of KStr s \<Rightarrow> py_int s | KInt i \<Rightarrow> Inr i)"

text \<open>The header-row check, on \<open>.get("file_properties", {}).get("header_row")\<close> of both sides.\<close>

definition get_header_row :: "structure_dict \<Rightarrow> int option" where
  "get_header_row st = (case file_properties st of None \<Rightarrow> None | Some fp \<Rightarrow> header_row fp)"

definition header_row_issues :: "structure_dict \<Rightarrow> structure_dict \<Rightarrow> string list" where
  "header_row_issues expected_structure current_structure =
     (case get_header_row expected_structure of
        None \<Rightarrow> []
      | Some expected_header_row \<Rightarrow>
          (case get_header_row current_structure of
             None \<Rightarrow> []
           | Some current_header_row \<Rightarrow>
               if expected_header_row \<noteq> current_header_row
               then [''Header row mismatch: expected row '' @ str_int expected_header_row
                       @ '', got row '' @ str_int current_header_row]
               else []))"

text \<open>
  The loop over \<open>expected_headers.items()\<close>. Reading \<open>["name"]\<close> from a header that has no
  such key raises \<open>KeyError\<close>.
\<close>

fun column_loop ::
  "string \<Rightarrow> (key \<times> header_info) list \<Rightarrow> (key \<times> header_info) list \<Rightarrow> string list
     \<Rightarrow> error + string list"
where
  "column_loop sheet_name current_headers [] issues = Inr issues"
| "column_loop sheet_name current_headers ((col, header_info) # rest) issues =
     (case coerce_col col of
        Inl e \<Rightarrow> Inl e
      | Inr c \<Rightarrow>
          (case map_of current_headers (KInt c) of
             None \<Rightarrow>
               column_loop sheet_name current_headers rest
                 (issues @ [''Missing column '' @ str_int c @ '' in sheet '' @ sheet_name])
           | Some current_info \<Rightarrow>
               (case name current_info of
                  None \<Rightarrow> Inl KeyError
                | Some current_name \<Rightarrow>
                    (case name header_info of
                       None \<Rightarrow> Inl KeyError
                     | Some expected_name \<Rightarrow>
                         if current_name \<noteq> expected_name then
                           column_loop sheet_name current_headers rest
                             (issues @
                               [''Header mismatch in sheet '' @ sheet_name @ '', column ''
                                  @ str_int c @ '': expected '' @ [CHR 0x27] @ expected_name
                                  @ [CHR 0x27] @ '', got '' @ [CHR 0x27] @ current_name
                                  @ [CHR 0x27]])
                         else column_loop sheet_name current_headers rest issues))))"

definition get_headers :: "sheet_structure \<Rightarrow> (key \<times> header_info) list" where
  "get_headers sheet = (case headers sheet of None \<Rightarrow> [] | Some hs \<Rightarrow> hs)"

definition get_sheets :: "structure_dict \<Rightarrow> (string \<times> sheet_structure) list" where
  "get_sheets st = (case sheets st of None \<Rightarrow> [] | Some shs \<Rightarrow> shs)"

text \<open>The loop over the sheet names of the expected structure.\<close>

fun expected_sheets_loop ::
  "structure_dict \<Rightarrow> structure_dict \<Rightarrow> string list \<Rightarrow> string list \<Rightarrow> error + string list"
where
  "expected_sheets_loop expected_structure current_structure [] issues = Inr issues"
| "expected_sheets_loop expected_structure current_structure (sheet_name # rest) issues =
     (case map_of (get_sheets current_structure) sheet_name of
        None \<Rightarrow>
          expected_sheets_loop expected_structure current_structure rest
            (issues @ [''Missing sheet: '' @ sheet_name])
      | Some current_sheet \<Rightarrow>
          (case map_of (get_sheets expected_structure) sheet_name of
             None \<Rightarrow> Inl KeyError
           | Some expected_sheet \<Rightarrow>
               (case column_loop sheet_name (get_headers current_sheet)
                       (get_headers expected_sheet) issues of
                  Inl e \<Rightarrow> Inl e
                | Inr issues' \<Rightarrow>
                    expected_sheets_loop expected_structure current_structure rest issues')))"

definition validate_structure ::
  "excel_sync \<Rightarrow> structure_dict option \<Rightarrow> int option \<Rightarrow> error + (bool \<times> string list)"
where
  "validate_structure self expected_arg hr_arg =
     (case extract_structure self hr_arg of
        Inl e \<Rightarrow> Inl e
      | Inr current_structure \<Rightarrow>
          (case expected_arg of
             None \<Rightarrow> Inr (True, [])
           | Some expected_structure \<Rightarrow>
               (case expected_sheets_loop expected_structure current_structure
                       (map fst (get_sheets expected_structure))
                       (header_row_issues expected_structure current_structure) of
                  Inl e \<Rightarrow> Inl e
                | Inr issues \<Rightarrow> Inr (length issues = 0, issues))))"

section \<open>ExcelSchema.to_json_schema\<close>

text \<open>
  The schema dictionary that \<open>to_json_schema\<close> builds always has the same shape, so it is
  a record per nesting level. The keyword \<open>type\<close> holds a name or a list of names.
\<close>

datatype json_type = TypeName string | TypeNames "string list"

record property_schema =
  prop_type :: json_type
  prop_description :: string

record items_schema =
  items_type :: string
  properties :: "(string option \<times> property_schema) list"
  additionalProperties :: bool

record sheet_schema =
  sheet_schema_type :: string
  items :: items_schema

record data_schema =
  data_schema_type :: string
  data_properties :: "(string \<times> sheet_schema) list"

record json_schema =
  dollar_schema :: string
  title :: string
  description :: string
  schema_type :: string
  data_property :: data_schema

text \<open>\<open>_map_to_json_schema_type\<close>: \<open>type_map.get(data_type, "string")\<close>\<close>

definition type_map :: "(string \<times> json_type) list" where
  "type_map =
     [(''string'', TypeName ''string''),
      (''integer'', TypeName ''integer''),
      (''number'', TypeName ''number''),
      (''boolean'', TypeName ''boolean''),
      (''datetime'', TypeName ''string''),
      (''null'', TypeNames [''null'', ''string''])]"

definition map_to_json_schema_type :: "string \<Rightarrow> json_type" where
  "map_to_json_schema_type dt =
     (case map_of type_map dt of None \<Rightarrow> TypeName ''string'' | Some t \<Rightarrow> t)"

text \<open>How an f-string prints the result of \<open>.get\<close>: the string, or \<open>None\<close>.\<close>

definition format_opt :: "string option \<Rightarrow> string" where
  "format_opt x = (case x of None \<Rightarrow> ''None'' | Some s \<Rightarrow> s)"

definition get_data_type :: "header_info \<Rightarrow> string" where
  "get_data_type header_info = (case data_type header_info of None \<Rightarrow> ''string'' | Some dt \<Rightarrow> dt)"

definition property_of :: "header_info \<Rightarrow> property_schema" where
  "property_of header_info =
     \<lparr>prop_type = map_to_json_schema_type (get_data_type header_info),
      prop_description =
        ''Column '' @ format_opt (column_letter header_info) @ '' - ''
          @ format_opt (name header_info)\<rparr>"

text \<open>The loop \<open>for col, header_info in headers.items()\<close> that fills \<open>properties\<close>.\<close>

fun properties_loop ::
  "(key \<times> header_info) list \<Rightarrow> (string option \<times> property_schema) list
     \<Rightarrow> (string option \<times> property_schema) list"
where
  "properties_loop [] props = props"
| "properties_loop ((col, header_info) # rest) props =
     properties_loop rest (AList.update (name header_info) (property_of header_info) props)"

definition sheet_schema_of :: "sheet_structure \<Rightarrow> sheet_schema" where
  "sheet_schema_of sheet =
     \<lparr>sheet_schema_type = ''array'',
      items = \<lparr>items_type = ''object'',
               properties = properties_loop (get_headers sheet) [],
               additionalProperties = False\<rparr>\<rparr>"

fun schema_sheets_loop ::
  "(string \<times> sheet_structure) list \<Rightarrow> (string \<times> sheet_schema) list \<Rightarrow> (string \<times> sheet_schema) list"
where
  "schema_sheets_loop [] acc = acc"
| "schema_sheets_loop ((sheet_name, sheet) # rest) acc =
     schema_sheets_loop rest (AList.update sheet_name (sheet_schema_of sheet) acc)"

definition get_filename :: "structure_dict \<Rightarrow> string" where
  "get_filename st =
     (case file_properties st of
        None \<Rightarrow> ''unknown''
      | Some fp \<Rightarrow> (case filename fp of None \<Rightarrow> ''unknown'' | Some f \<Rightarrow> f))"

definition to_json_schema :: "excel_schema \<Rightarrow> json_schema" where
  "to_json_schema self =
     \<lparr>dollar_schema = ''http://json-schema.org/draft-07/schema#'',
      title = ''Excel Data Schema'',
      description = ''Schema for Excel file '' @ get_filename (schema_structure self),
      schema_type = ''object'',
      data_property =
        \<lparr>data_schema_type = ''object'',
         data_properties = schema_sheets_loop (get_sheets (schema_structure self)) []\<rparr>\<rparr>"

section \<open>ExcelSchema.generate_yaml_template\<close>

text \<open>A Python value of the kind JSON and YAML documents hold.\<close>

datatype json =
    JNull
  | JBool bool
  | JInt int
  | JFloat pyfloat
  | JStr string
  | JArr "json list"
  | JObj "(string \<times> json) list"

text \<open>\<open>_get_type_example\<close>: \<open>examples.get(data_type, "example")\<close>\<close>

definition examples :: "(string \<times> json) list" where
  "examples =
     [(''string'', JStr ''example''),
      (''integer'', JInt 0),
      (''number'', JFloat (PyFloat ''0.0'' False True)),
      (''boolean'', JBool False),
      (''datetime'', JStr ''2023-01-01''),
      (''null'', JNull)]"

definition get_type_example :: "string \<Rightarrow> json" where
  "get_type_example dt = (case map_of examples dt of None \<Rightarrow> JStr ''example'' | Some v \<Rightarrow> v)"

fun example_row_loop ::
  "(key \<times> header_info) list \<Rightarrow> (string option \<times> json) list \<Rightarrow> (string option \<times> json) list"
where
  "example_row_loop [] example_row = example_row"
| "example_row_loop ((col, header_info) # rest) example_row =
     example_row_loop rest
       (AList.update (name header_info) (get_type_example (get_data_type header_info)) example_row)"

definition template_sheet_data :: "sheet_structure \<Rightarrow> (string option \<times> json) list list" where
  "template_sheet_data sheet =
     (if get_headers sheet \<noteq> [] then [example_row_loop (get_headers sheet) []] else [])"

text \<open>
  The loop over the sheet names, which reads each sheet back with
  \<open>self.structure["sheets"][sheet_name]\<close>.
\<close>

fun template_sheets_loop ::
  "(string \<times> sheet_structure) list \<Rightarrow> string list
     \<Rightarrow> (string \<times> (string option \<times> json) list list) list
     \<Rightarrow> error + (string \<times> (string option \<times> json) list list) list"
where
  "template_sheets_loop shs [] acc = Inr acc"
| "template_sheets_loop shs (sheet_name # rest) acc =
     (case map_of shs sheet_name of
        None \<Rightarrow> Inl KeyError
      | Some sheet \<Rightarrow>
          template_sheets_loop shs rest (AList.update sheet_name (template_sheet_data sheet) acc))"

record yaml_template =
  template_schema :: structure_dict
  template_data :: "(string \<times> (string option \<times> json) list list) list"

definition generate_yaml_template :: "excel_schema \<Rightarrow> error + yaml_template" where
  "generate_yaml_template self =
     (let shs = get_sheets (schema_structure self)
      in case template_sheets_loop shs (map fst shs) [] of
           Inl e \<Rightarrow> Inl e
         | Inr d \<Rightarrow> Inr \<lparr>template_schema = schema_structure self, template_data = d\<rparr>)"

section \<open>The schema validator that validate_data calls\<close>

text \<open>
  \<open>jsonschema.validate(instance, schema)\<close> is library code. It is modelled here for the
  schemas \<open>to_json_schema\<close> builds, after the library's draft-07 validator: the keywords
  \<open>type\<close>, \<open>properties\<close>, \<open>items\<close> and \<open>additionalProperties\<close> are checked in the order the
  schema dictionary lists them, each error carries the path to the offending part of the
  instance, and \<open>validate\<close> raises one error, the best match of all errors found.
  The other keywords of these schemas (\<open>$schema\<close>, \<open>title\<close>, \<open>description\<close>) check nothing.
\<close>

datatype path_item = Key string | Index nat

datatype validation_error =
  ValidationError (error_path: "path_item list") (error_validator: string) (error_instance: json)

text \<open>
  The draft-07 type test. An integral float is an \<open>integer\<close>; a boolean is neither an
  \<open>integer\<close> nor a \<open>number\<close>. The type names in a schema built by \<open>to_json_schema\<close> are
  among these seven.
\<close>

definition is_type :: "json \<Rightarrow> string \<Rightarrow> bool" where
  "is_type inst t =
     (if t = ''null'' then (case inst of JNull \<Rightarrow> True | _ \<Rightarrow> False)
      else if t = ''boolean'' then (case inst of JBool b \<Rightarrow> True | _ \<Rightarrow> False)
      else if t = ''integer'' then
        (case inst of JInt i \<Rightarrow> True | JFloat f \<Rightarrow> fl_integral f | _ \<Rightarrow> False)
      else if t = ''number'' then (case inst of JInt i \<Rightarrow> True | JFloat f \<Rightarrow> True | _ \<Rightarrow> False)
      else if t = ''string'' then (case inst of JStr s \<Rightarrow> True | _ \<Rightarrow> False)
      else if t = ''array'' then (case inst of JArr xs \<Rightarrow> True | _ \<Rightarrow> False)
      else if t = ''object'' then (case inst of JObj kvs \<Rightarrow> True | _ \<Rightarrow> False)
      else False)"

definition ensure_list :: "json_type \<Rightarrow> string list" where
  "ensure_list ty = (case ty of TypeName t \<Rightarrow> [t] | TypeNames ts \<Rightarrow> ts)"

text \<open>The keyword \<open>type\<close>: one error when the instance has none of the types.\<close>

definition type_errors :: "json_type \<Rightarrow> json \<Rightarrow> path_item list \<Rightarrow> validation_error list" where
  "type_errors ty inst path =
     (if list_ex (is_type inst) (ensure_list ty) then [] else [ValidationError path ''type'' inst])"

text \<open>
  The keyword \<open>properties\<close> of the row schema: every listed property that the instance
  has is checked against its own schema, which has the keyword \<open>type\<close>.
\<close>

definition property_errors ::
  "(string option \<times> property_schema) list \<Rightarrow> json \<Rightarrow> path_item list \<Rightarrow> validation_error list"
where
  "property_errors props inst path =
     (case inst of
        JObj kvs \<Rightarrow>
          concat (map (\<lambda>(property, subschema).
              (case property of
                 None \<Rightarrow> []
               | Some p \<Rightarrow>
                   (case map_of kvs p of
                      None \<Rightarrow> []
                    | Some v \<Rightarrow> type_errors (prop_type subschema) v (path @ [Key p])))) props)
      | _ \<Rightarrow> [])"

text \<open>
  The keyword \<open>additionalProperties\<close> with the value \<open>False\<close>: one error when the instance
  has a key that is not a listed property.
\<close>

definition find_additional_properties ::
  "(string option \<times> property_schema) list \<Rightarrow> (string \<times> json) list \<Rightarrow> string list"
where
  "find_additional_properties props kvs =
     filter (\<lambda>property. Some property \<notin> set (map fst props)) (map fst kvs)"

definition additional_properties_errors ::
  "items_schema \<Rightarrow> json \<Rightarrow> path_item list \<Rightarrow> validation_error list"
where
  "additional_properties_errors sch inst path =
     (case inst of
        JObj kvs \<Rightarrow>
          if \<not> additionalProperties sch \<and> find_additional_properties (properties sch) kvs \<noteq> []
          then [ValidationError path ''additionalProperties'' inst]
          else []
      | _ \<Rightarrow> [])"

definition item_errors :: "items_schema \<Rightarrow> json \<Rightarrow> path_item list \<Rightarrow> validation_error list" where
  "item_errors sch inst path =
     type_errors (TypeName (items_type sch)) inst path
       @ property_errors (properties sch) inst path
       @ additional_properties_errors sch inst path"

text \<open>The keywords \<open>type\<close> and \<open>items\<close> of a sheet schema.\<close>

definition sheet_errors :: "sheet_schema \<Rightarrow> json \<Rightarrow> path_item list \<Rightarrow> validation_error list" where
  "sheet_errors sch inst path =
     type_errors (TypeName (sheet_schema_type sch)) inst path
       @ (case inst of
            JArr xs \<Rightarrow>
              concat (map (\<lambda>(index, item). item_errors (items sch) item (path @ [Index index]))
                        (enumerate 0 xs))
          | _ \<Rightarrow> [])"

text \<open>The keywords \<open>type\<close> and \<open>properties\<close> of the schema of \<open>data\<close>.\<close>

definition data_errors :: "data_schema \<Rightarrow> json \<Rightarrow> path_item list \<Rightarrow> validation_error list" where
  "data_errors sch inst path =
     type_errors (TypeName (data_schema_type sch)) inst path
       @ (case inst of
            JObj kvs \<Rightarrow>
              concat (map (\<lambda>(sheet_name, subschema).
                  (case map_of kvs sheet_name of
                     None \<Rightarrow> []
                   | Some v \<Rightarrow> sheet_errors subschema v (path @ [Key sheet_name])))
                (data_properties sch))
          | _ \<Rightarrow> [])"

text \<open>\<open>iter_errors\<close>: all errors of an instance against the whole schema, in order.\<close>

definition iter_errors :: "json_schema \<Rightarrow> json \<Rightarrow> validation_error list" where
  "iter_errors sch inst =
     type_errors (TypeName (schema_type sch)) inst []
       @ (case inst of
            JObj kvs \<Rightarrow>
              (case map_of kvs ''data'' of
                 None \<Rightarrow> []
               | Some v \<Rightarrow> data_errors (data_property sch) v [Key ''data''])
          | _ \<Rightarrow> [])"

text \<open>
  \<open>best_match\<close> returns the error that \<open>max\<close> picks under the library's relevance key. The
  key is a tuple that starts with the negated length of the error's path and the path
  itself: an error with a shorter path is more relevant, and of two errors with paths of
  equal length the one with the greater path is, where paths are compared item by item,
  strings by code point and indices as numbers. \<open>max\<close> keeps the first of several greatest
  errors. The later components of the key can only tell apart two errors with one and the
  same path, and the errors of an instance against a schema of \<open>to_json_schema\<close> have
  distinct paths (\<open>iter_errors_distinct_paths\<close> below). A string is never compared with an
  index either (Python would raise \<open>TypeError\<close>), as paths of equal length have items of
  the same kind at every position (\<open>iter_errors_path_kinds\<close> below).
\<close>

fun str_greater :: "string \<Rightarrow> string \<Rightarrow> bool" where
  "str_greater [] t = False"
| "str_greater (c # cs) [] = True"
| "str_greater (c # cs) (d # ds) =
     (if c = d then str_greater cs ds else (of_char d :: nat) < of_char c)"

fun item_greater :: "path_item \<Rightarrow> path_item \<Rightarrow> bool" where
  "item_greater (Key a) (Key b) = str_greater a b"
| "item_greater (Index i) (Index j) = (j < i)"
| "item_greater a b = False"

fun path_greater :: "path_item list \<Rightarrow> path_item list \<Rightarrow> bool" where
  "path_greater [] q = False"
| "path_greater (a # p) [] = True"
| "path_greater (a # p) (b # q) = (if a = b then path_greater p q else item_greater a b)"

definition more_relevant :: "validation_error \<Rightarrow> validation_error \<Rightarrow> bool" where
  "more_relevant e best \<longleftrightarrow>
     length (error_path e) < length (error_path best)
     \<or> (length (error_path e) = length (error_path best)
         \<and> path_greater (error_path e) (error_path best))"

definition best_match :: "validation_error list \<Rightarrow> validation_error option" where
  "best_match errors =
     (case errors of
        [] \<Rightarrow> None
      | e # es \<Rightarrow> Some (foldl (\<lambda>best e'. if more_relevant e' best then e' else best) e es))"

definition jsonschema_validate :: "json \<Rightarrow> json_schema \<Rightarrow> validation_error + unit" where
  "jsonschema_validate inst sch =
     (case best_match (iter_errors sch inst) of None \<Rightarrow> Inr () | Some e \<Rightarrow> Inl e)"

text \<open>
  What it means for an instance to conform to one of these schemas, stated without
  reference to errors: every part of the instance that a keyword applies to satisfies it.
\<close>

definition has_type :: "json_type \<Rightarrow> json \<Rightarrow> bool" where
  "has_type ty inst \<longleftrightarrow> list_ex (is_type inst) (ensure_list ty)"

definition item_conforms :: "items_schema \<Rightarrow> json \<Rightarrow> bool" where
  "item_conforms sch inst \<longleftrightarrow>
     is_type inst (items_type sch)
     \<and> (case inst of
          JObj kvs \<Rightarrow>
            list_all (\<lambda>(property, subschema).
                (case property of
                   None \<Rightarrow> True
                 | Some p \<Rightarrow>
                     (case map_of kvs p of
                        None \<Rightarrow> True
                      | Some v \<Rightarrow> has_type (prop_type subschema) v))) (properties sch)
            \<and> (additionalProperties sch
                \<or> list_all (\<lambda>k. Some k \<in> set (map fst (properties sch))) (map fst kvs))
        | _ \<Rightarrow> True)"

definition sheet_conforms :: "sheet_schema \<Rightarrow> json \<Rightarrow> bool" where
  "sheet_conforms sch inst \<longleftrightarrow>
     is_type inst (sheet_schema_type sch)
     \<and> (case inst of JArr xs \<Rightarrow> list_all (item_conforms (items sch)) xs | _ \<Rightarrow> True)"

definition data_conforms :: "data_schema \<Rightarrow> json \<Rightarrow> bool" where
  "data_conforms sch inst \<longleftrightarrow>
     is_type inst (data_schema_type sch)
     \<and> (case inst of
          JObj kvs \<Rightarrow>
            list_all (\<lambda>(sheet_name, subschema).
                (case map_of kvs sheet_name of
                   None \<Rightarrow> True
                 | Some v \<Rightarrow> sheet_conforms subschema v)) (data_properties sch)
        | _ \<Rightarrow> True)"

definition conforms :: "json_schema \<Rightarrow> json \<Rightarrow> bool" where
  "conforms sch inst \<longleftrightarrow>
     is_type inst (schema_type sch)
     \<and> (case inst of
          JObj kvs \<Rightarrow>
            (case map_of kvs ''data'' of
               None \<Rightarrow> True
             | Some v \<Rightarrow> data_conforms (data_property sch) v)
        | _ \<Rightarrow> True)"

section \<open>ExcelSchema.validate_data\<close>

text \<open>
  The list \<open>errors\<close> holds \<open>str(e)\<close> of the error caught. The text of \<open>str(e)\<close> is the
  library's rendering of the error, so the error itself stands for it here.
\<close>

definition validate_data :: "excel_schema \<Rightarrow> json \<Rightarrow> validation_error list" where
  "validate_data self data =
     (let errors = [];
          sch = to_json_schema self
      in case jsonschema_validate (JObj [(''data'', data)]) sch of
           Inl e \<Rightarrow> errors @ [e]
         | Inr u \<Rightarrow> errors)"

section \<open>Files, and the methods that read or write them\<close>

text \<open>
  A file system maps a path to the content of the file there. A JSON file is given by the
  document \<open>json.load\<close> reads from it, a YAML file by the document \<open>yaml.dump\<close> wrote to it,
  a spreadsheet file by the workbook \<open>openpyxl.load_workbook\<close> reads from it.
\<close>

type_synonym yaml_rows = "(string \<times> (string \<times> cell_value) list list) list"

datatype file_content =
    XlsxFile workbook
  | JsonFile structure_dict
  | YamlFile structure_dict yaml_rows
  | OtherFile string

type_synonym filesystem = "string \<rightharpoonup> file_content"

text \<open>\<open>ExcelSync.__init__\<close>\<close>

definition ExcelSync_init :: "filesystem \<Rightarrow> string \<Rightarrow> int \<Rightarrow> error + excel_sync" where
  "ExcelSync_init fs path hr =
     (case fs path of
        None \<Rightarrow> Inl FileNotFoundError
      | Some (XlsxFile wb) \<Rightarrow>
          Inr \<lparr>excel_file = path, workbook = wb, schema = ExcelSchema_init None,
               self_header_row = hr\<rparr>
      | Some other \<Rightarrow> Inl ReaderError)"

text \<open>
  \<open>json.dump\<close> writes every dictionary key as a string, so a document read back has its
  column keys in string form.
\<close>

definition json_key :: "key \<Rightarrow> key" where
  "json_key k = (case k of KInt i \<Rightarrow> KStr (str_int i) | KStr s \<Rightarrow> KStr s)"

definition json_headers :: "(key \<times> header_info) list \<Rightarrow> (key \<times> header_info) list" where
  "json_headers hs = foldl (\<lambda>acc (k, h). AList.update (json_key k) h acc) [] hs"

definition json_sheet :: "sheet_structure \<Rightarrow> sheet_structure" where
  "json_sheet sheet =
     sheet\<lparr>columns := json_headers (columns sheet),
           headers := map_option json_headers (headers sheet)\<rparr>"

definition json_dump :: "structure_dict \<Rightarrow> file_content" where
  "json_dump st = JsonFile (st\<lparr>sheets := map_option (map (\<lambda>(n, sheet). (n, json_sheet sheet))) (sheets st)\<rparr>)"

definition json_load :: "file_content \<Rightarrow> error + structure_dict" where
  "json_load content = (case content of JsonFile st \<Rightarrow> Inr st | _ \<Rightarrow> Inl ReaderError)"

text \<open>\<open>export_structure\<close>: the file system after the call.\<close>

definition export_structure ::
  "excel_sync \<Rightarrow> filesystem \<Rightarrow> string \<Rightarrow> int option \<Rightarrow> error + filesystem"
where
  "export_structure self fs output_file hr_arg =
     (case extract_structure self hr_arg of
        Inl e \<Rightarrow> Inl e
      | Inr st \<Rightarrow> Inr (fs(output_file \<mapsto> json_dump st)))"

text \<open>\<open>compare_structure\<close>\<close>

definition compare_structure ::
  "excel_sync \<Rightarrow> filesystem \<Rightarrow> string \<Rightarrow> int option \<Rightarrow> error + (bool \<times> string list)"
where
  "compare_structure self fs structure_file hr_arg =
     (case fs structure_file of
        None \<Rightarrow> Inl FileNotFoundError
      | Some content \<Rightarrow>
          (case json_load content of
             Inl e \<Rightarrow> Inl e
           | Inr expected_structure \<Rightarrow> validate_structure self (Some expected_structure) hr_arg))"

text \<open>
  \<open>export_to_yaml\<close>: the headers of a sheet (no test of \<open>max_row\<close> here), then one record
  per data row, a row without any value being left out.
\<close>

fun yaml_header_loop ::
  "worksheet \<Rightarrow> int \<Rightarrow> int list \<Rightarrow> (int \<times> string) list \<Rightarrow> error + (int \<times> string) list"
where
  "yaml_header_loop sheet hr [] hs = Inr hs"
| "yaml_header_loop sheet hr (col # cols) hs =
     (case sheet_cell sheet hr col of
        Inl e \<Rightarrow> Inl e
      | Inr header_value \<Rightarrow>
          if truthy header_value
          then yaml_header_loop sheet hr cols (AList.update col (py_str header_value) hs)
          else yaml_header_loop sheet hr cols hs)"

fun yaml_row_loop ::
  "worksheet \<Rightarrow> int \<Rightarrow> (int \<times> string) list \<Rightarrow> (string \<times> cell_value) list
     \<Rightarrow> error + (string \<times> cell_value) list"
where
  "yaml_row_loop sheet r [] row_data = Inr row_data"
| "yaml_row_loop sheet r ((col, header) # rest) row_data =
     (case sheet_cell sheet r col of
        Inl e \<Rightarrow> Inl e
      | Inr v \<Rightarrow>
          if v \<noteq> VNone
          then yaml_row_loop sheet r rest (AList.update header v row_data)
          else yaml_row_loop sheet r rest row_data)"

fun yaml_rows_loop ::
  "worksheet \<Rightarrow> (int \<times> string) list \<Rightarrow> int list \<Rightarrow> (string \<times> cell_value) list list
     \<Rightarrow> error + (string \<times> cell_value) list list"
where
  "yaml_rows_loop sheet hs [] sheet_data = Inr sheet_data"
| "yaml_rows_loop sheet hs (r # rs) sheet_data =
     (case yaml_row_loop sheet r hs [] of
        Inl e \<Rightarrow> Inl e
      | Inr row_data \<Rightarrow>
          if row_data \<noteq> []
          then yaml_rows_loop sheet hs rs (sheet_data @ [row_data])
          else yaml_rows_loop sheet hs rs sheet_data)"

fun yaml_sheets_loop ::
  "workbook \<Rightarrow> int \<Rightarrow> string list \<Rightarrow> yaml_rows \<Rightarrow> error + yaml_rows"
where
  "yaml_sheets_loop wb hr [] acc = Inr acc"
| "yaml_sheets_loop wb hr (sheet_name # rest) acc =
     (case workbook_getitem wb sheet_name of
        Inl e \<Rightarrow> Inl e
      | Inr sheet \<Rightarrow>
          (case yaml_header_loop sheet hr [1..max_column sheet] [] of
             Inl e \<Rightarrow> Inl e
           | Inr hs \<Rightarrow>
               (case yaml_rows_loop sheet hs [hr + 1..max_row sheet] [] of
                  Inl e \<Rightarrow> Inl e
                | Inr sheet_data \<Rightarrow>
                    yaml_sheets_loop wb hr rest (AList.update sheet_name sheet_data acc))))"

definition export_to_yaml ::
  "excel_sync \<Rightarrow> filesystem \<Rightarrow> string \<Rightarrow> int option \<Rightarrow> error + filesystem"
where
  "export_to_yaml self fs output_file hr_arg =
     (let hr = effective_header_row self hr_arg
      in case extract_structure self (Some hr) of
           Inl e \<Rightarrow> Inl e
         | Inr st \<Rightarrow>
             (case yaml_sheets_loop (workbook self) hr (sheetnames (workbook self)) [] of
                Inl e \<Rightarrow> Inl e
              | Inr d \<Rightarrow> Inr (fs(output_file \<mapsto> YamlFile st d))))"

text \<open>
  \<open>load_structure\<close>, the one method that assigns to attributes of the instance: the
  instance after the call.
\<close>

definition load_structure :: "excel_sync \<Rightarrow> filesystem \<Rightarrow> string \<Rightarrow> error + excel_sync" where
  "load_structure self fs structure_file =
     (case fs structure_file of
        None \<Rightarrow> Inl FileNotFoundError
      | Some content \<Rightarrow>
          (case json_load content of
             Inl e \<Rightarrow> Inl e
           | Inr st \<Rightarrow>
               (let self' =
                      (case file_properties st of
                         None \<Rightarrow> self
                       | Some fp \<Rightarrow>
                           (case header_row fp of
                              None \<Rightarrow> self
                            | Some h \<Rightarrow> self\<lparr>self_header_row := h\<rparr>))
                in Inr (self'\<lparr>schema := (schema self')\<lparr>schema_structure := st\<rparr>\<rparr>))))"

text \<open>
  A call of a public method on an instance, and the instance and the file system after
  it. A method whose body assigns to no attribute leaves the instance as it was; so does
  a call that raises, as every \<open>raise\<close> stands before the first assignment.
\<close>

datatype method_call =
    ExtractStructure "int option"
  | ExportStructure string "int option"
  | ValidateStructure "structure_dict option" "int option"
  | CompareStructure string "int option"
  | ExportToYaml string "int option"
  | LoadStructure string

fun after_call :: "method_call \<Rightarrow> excel_sync \<times> filesystem \<Rightarrow> excel_sync \<times> filesystem" where
  "after_call (ExtractStructure hr_arg) (self, fs) = (self, fs)"
| "after_call (ExportStructure output_file hr_arg) (self, fs) =
     (case export_structure self fs output_file hr_arg of
        Inl e \<Rightarrow> (self, fs)
      | Inr fs' \<Rightarrow> (self, fs'))"
| "after_call (ValidateStructure expected_arg hr_arg) (self, fs) = (self, fs)"
| "after_call (CompareStructure structure_file hr_arg) (self, fs) = (self, fs)"
| "after_call (ExportToYaml output_file hr_arg) (self, fs) =
     (case export_to_yaml self fs output_file hr_arg of
        Inl e \<Rightarrow> (self, fs)
      | Inr fs' \<Rightarrow> (self, fs'))"
| "after_call (LoadStructure structure_file) (self, fs) =
     (case load_structure self fs structure_file of
        Inl e \<Rightarrow> (self, fs)
      | Inr self' \<Rightarrow> (self', fs))"

section \<open>Notions used in the statements and proofs\<close>

text \<open>
  What holds of every \<open>headers\<close> dictionary that \<open>extract_structure\<close> builds: the keys are
  distinct \<open>int\<close> column indices and every entry has a \<open>name\<close>.
\<close>

definition int_key :: "key \<Rightarrow> bool" where
  "int_key k = (case k of KInt c \<Rightarrow> True | KStr s \<Rightarrow> False)"

definition extracted_headers :: "(key \<times> header_info) list \<Rightarrow> bool" where
  "extracted_headers hs \<longleftrightarrow>
     distinct (map fst hs) \<and> list_all (\<lambda>(k, h). int_key k \<and> name h \<noteq> None) hs"

text \<open>
  openpyxl knows no column beyond 18278 (\<open>ZZZ\<close>), so no worksheet it loads has a greater
  \<open>max_column\<close>.
\<close>

definition column_limit :: "workbook \<Rightarrow> bool" where
  "column_limit wb \<longleftrightarrow> list_all (\<lambda>(n, sheet). max_column sheet \<le> 18278) (worksheets wb)"

text \<open>
  The header entry of a column as the first loop stores it, and as it stands at the end of
  \<open>extract_structure\<close>, when the data-type loop has run or not.
\<close>

definition header_of :: "worksheet \<Rightarrow> int \<Rightarrow> int \<Rightarrow> header_info" where
  "header_of sheet hr col =
     \<lparr>name = Some (py_str (cell_value_at sheet hr col)),
      column_letter = Some (column_letters (nat col)), data_type = None\<rparr>"

definition typed_header :: "worksheet \<Rightarrow> int \<Rightarrow> int \<Rightarrow> header_info" where
  "typed_header sheet hr col =
     (if max_row sheet \<ge> hr + 1
      then (header_of sheet hr col)\<lparr>data_type := Some (detect_data_type (cell_value_at sheet (hr + 1) col))\<rparr>
      else header_of sheet hr col)"

text \<open>Strings of decimal digits, and the number such a string denotes after \<open>acc\<close>.\<close>

definition all_digits :: "string \<Rightarrow> bool" where
  "all_digits s = list_all (\<lambda>c. digit_value c \<noteq> None) s"

definition digits_number :: "nat \<Rightarrow> string \<Rightarrow> nat" where
  "digits_number acc s = foldl (\<lambda>a c. 10 * a + the (digit_value c)) acc s"

text \<open>
  A headers dictionary, a sheet and a structure with every \<open>int\<close> column key replaced by
  its decimal string, as in a document that came through JSON.
\<close>

definition with_string_keys :: "(key \<times> header_info) list \<Rightarrow> (key \<times> header_info) list" where
  "with_string_keys hs = map (\<lambda>(k, h). (json_key k, h)) hs"

definition sheet_with_string_keys :: "sheet_structure \<Rightarrow> sheet_structure" where
  "sheet_with_string_keys sheet = sheet\<lparr>headers := map_option with_string_keys (headers sheet)\<rparr>"

definition structure_with_string_keys :: "structure_dict \<Rightarrow> structure_dict" where
  "structure_with_string_keys st =
     st\<lparr>sheets := map_option (map (\<lambda>(n, sheet). (n, sheet_with_string_keys sheet))) (sheets st)\<rparr>"

section \<open>A concrete workbook\<close>

text \<open>
  The workbook of the repository's tests: \<open>Sheet1\<close> with the headers ID, Name, Age and Date
  and two data rows, \<open>Sheet2\<close> with Product and Price and one data row. \<open>Sheet2\<close> has
  here a third column whose header cell holds the number 0.
\<close>

definition sheet1 :: worksheet where
  "sheet1 =
     \<lparr>max_row = 3, max_column = 4,
      cells = map_of
        [((1, 1), VStr ''ID''), ((1, 2), VStr ''Name''), ((1, 3), VStr ''Age''),
         ((1, 4), VStr ''Date''),
         ((2, 1), VInt 1), ((2, 2), VStr ''John Doe''), ((2, 3), VInt 30),
         ((2, 4), VStr ''2023-01-01''),
         ((3, 1), VInt 2), ((3, 2), VStr ''Jane Smith''), ((3, 3), VInt 28),
         ((3, 4), VStr ''2023-02-15'')],
      ws_merged_cells = []\<rparr>"

definition sheet2 :: worksheet where
  "sheet2 =
     \<lparr>max_row = 2, max_column = 3,
      cells = map_of
        [((1, 1), VStr ''Product''), ((1, 2), VStr ''Price''), ((1, 3), VInt 0),
         ((2, 1), VStr ''Widget''), ((2, 2), VFloat (PyFloat ''19.99'' True False)),
         ((2, 3), VBool True)],
      ws_merged_cells = []\<rparr>"

definition sample_workbook :: workbook where
  "sample_workbook =
     \<lparr>worksheets = [(''Sheet1'', sheet1), (''Sheet2'', sheet2)], defined_names = Some []\<rparr>"

definition sample_sync :: excel_sync where
  "sample_sync =
     \<lparr>excel_file = ''/tmp/sample.xlsx'', workbook = sample_workbook,
      schema = ExcelSchema_init None, self_header_row = 1\<rparr>"

text \<open>The structure that \<open>extract_structure\<close> gives for this workbook with header row 1.\<close>

definition sample_structure :: structure_dict where
  "sample_structure =
     \<lparr>sheets = Some
        [(''Sheet1'',
          \<lparr>columns = [], rows = 3, columns_count = 4, merged_cells = [],
           headers = Some
             [(KInt 1, \<lparr>name = Some ''ID'', column_letter = Some ''A'',
                        data_type = Some ''integer''\<rparr>),
              (KInt 2, \<lparr>name = Some ''Name'', column_letter = Some ''B'',
                        data_type = Some ''string''\<rparr>),
              (KInt 3, \<lparr>name = Some ''Age'', column_letter = Some ''C'',
                        data_type = Some ''integer''\<rparr>),
              (KInt 4, \<lparr>name = Some ''Date'', column_letter = Some ''D'',
                        data_type = Some ''datetime''\<rparr>)]\<rparr>),
         (''Sheet2'',
          \<lparr>columns = [], rows = 2, columns_count = 3, merged_cells = [],
           headers = Some
             [(KInt 1, \<lparr>name = Some ''Product'', column_letter = Some ''A'',
                        data_type = Some ''string''\<rparr>),
              (KInt 2, \<lparr>name = Some ''Price'', column_letter = Some ''B'',
                        data_type = Some ''number''\<rparr>)]\<rparr>)],
      named_ranges = Some [],
      file_properties =
        Some \<lparr>filename = Some ''sample.xlsx'', sheet_count = Some 2, header_row = Some 1\<rparr>\<rparr>"

text \<open>
  An expected structure that differs from the workbook: column 1 of \<open>Sheet1\<close> is named
  otherwise, \<open>Sheet1\<close> has a column 9, and there is a sheet \<open>Sheet3\<close>.
\<close>

definition expected_sample :: structure_dict where
  "expected_sample =
     \<lparr>sheets = Some
        [(''Sheet1'',
          \<lparr>columns = [], rows = 3, columns_count = 9, merged_cells = [],
           headers = Some
             [(KInt 1, \<lparr>name = Some ''Modified'', column_letter = Some ''A'',
                        data_type = Some ''integer''\<rparr>),
              (KInt 9, \<lparr>name = Some ''Extra'', column_letter = Some ''I'',
                        data_type = Some ''string''\<rparr>)]\<rparr>),
         (''Sheet3'',
          \<lparr>columns = [], rows = 1, columns_count = 1, merged_cells = [], headers = None\<rparr>)],
      named_ranges = Some [],
      file_properties =
        Some \<lparr>filename = Some ''sample.xlsx'', sheet_count = Some 2, header_row = Some 1\<rparr>\<rparr>"

text \<open>A schema object holding the structure above.\<close>

definition sample_schema :: excel_schema where
  "sample_schema = \<lparr>schema_structure = sample_structure\<rparr>"

text \<open>
  A structure with one sheet whose columns 1 and 2 both have the header name \<open>Amount\<close>,
  with different letters and data types.
\<close>

definition duplicate_sheet :: sheet_structure where
  "duplicate_sheet =
     \<lparr>columns = [], rows = 2, columns_count = 3, merged_cells = [],
      headers = Some
        [(KInt 1, \<lparr>name = Some ''Amount'', column_letter = Some ''A'',
                   data_type = Some ''integer''\<rparr>),
         (KInt 2, \<lparr>name = Some ''Amount'', column_letter = Some ''B'',
                   data_type = Some ''boolean''\<rparr>),
         (KInt 3, \<lparr>name = Some ''Note'', column_letter = Some ''C'',
                   data_type = Some ''null''\<rparr>)]\<rparr>"

definition duplicate_schema :: excel_schema where
  "duplicate_schema =
     \<lparr>schema_structure =
        \<lparr>sheets = Some [(''Ledger'', duplicate_sheet)], named_ranges = Some [],
         file_properties =
           Some \<lparr>filename = Some ''ledger.xlsx'', sheet_count = Some 1, header_row = Some 1\<rparr>\<rparr>\<rparr>"

text \<open>
  A file system with the workbook, a structure file that records header row 3, and a
  structure file without file properties.
\<close>

definition sample_files :: filesystem where
  "sample_files =
     map_of
       [(''/tmp/sample.xlsx'', XlsxFile sample_workbook),
        (''/tmp/row3.json'',
           JsonFile (sample_structure\<lparr>file_properties :=
             Some \<lparr>filename = Some ''sample.xlsx'', sheet_count = Some 2, header_row = Some 3\<rparr>\<rparr>)),
        (''/tmp/bare.json'', JsonFile empty_dict)]"

text \<open>Data for \<open>Sheet2\<close> that breaks the schema twice: a number as Product, and a key Colour.\<close>

definition bad_data :: json where
  "bad_data = JObj [(''Sheet2'', JArr [JObj [(''Product'', JInt 5), (''Colour'', JStr ''red'')]])]"

definition good_data :: json where
  "good_data =
     JObj [(''Sheet2'',
        JArr [JObj [(''Product'', JStr ''Widget''), (''Price'', JFloat (PyFloat ''19.99'' True False))]])]"

section \<open>Verified properties\<close>

subsection \<open>Data-type detection\<close>

lemma detect_data_type_cases:
  "detect_data_type VNone = ''null''"
  "detect_data_type (VBool b) = ''boolean''"
  "detect_data_type (VInt n) = ''integer''"
  "detect_data_type (VFloat f) = ''number''"
  "detect_data_type (VStr s) = text_tag (VStr s)"
  "detect_data_type (VOther tn t txt) = tn"
  by (simp_all add: detect_data_type_def text_tag_def)

text \<open>
  Claim C2. The detection is the first-match evaluation of the six rules in their order,
  so every value gets exactly one tag; a boolean passes the integer test of rule 3 as
  well, and is tagged \<open>boolean\<close> by rule 2, never \<open>integer\<close>.
\<close>

theorem detect_data_type_strict_priority:
  "first_matching_rule classification_rules v = Some (detect_data_type v)
   \<and> isinstance_int (VBool b)
   \<and> detect_data_type (VBool b) = ''boolean''
   \<and> detect_data_type (VBool b) \<noteq> ''integer''"
  by (cases v) (simp_all add: classification_rules_def detect_data_type_cases)

subsection \<open>The loops of extract_structure\<close>

lemma header_loop_map_of:
  "header_loop sheet hr cols acc = Inr hs \<Longrightarrow>
   map_of hs c =
     (if c \<in> set cols \<and> truthy (cell_value_at sheet hr c) then Some (header_of sheet hr c)
      else map_of acc c)"
proof (induction cols arbitrary: acc)
  case Nil
  then show ?case by simp
next
  case (Cons col cols)
  show ?case
  proof (cases "truthy (cell_value_at sheet hr col)")
    case True
    with Cons.prems have ok: "1 \<le> hr" "1 \<le> col" "col \<le> 18278"
      and rest: "header_loop sheet hr cols (AList.update col (header_of sheet hr col) acc) = Inr hs"
      by (auto simp: sheet_cell_def get_column_letter_def header_of_def split: if_splits)
    from Cons.IH [OF rest] True show ?thesis
      by (auto simp: AList.update_conv')
  next
    case False
    with Cons.prems have rest: "header_loop sheet hr cols acc = Inr hs"
      by (auto simp: sheet_cell_def split: if_splits)
    from Cons.IH [OF rest] False show ?thesis by auto
  qed
qed

lemma header_loop_distinct:
  "header_loop sheet hr cols acc = Inr hs \<Longrightarrow> distinct (map fst acc) \<Longrightarrow> distinct (map fst hs)"
proof (induction cols arbitrary: acc)
  case Nil
  then show ?case by simp
next
  case (Cons col cols)
  then show ?case
    by (auto simp: AList.distinct_update split: sum.splits if_splits)
qed

lemma header_loop_ok:
  "1 \<le> hr \<Longrightarrow> \<forall>c \<in> set cols. 1 \<le> c \<and> c \<le> 18278 \<Longrightarrow> \<exists>hs. header_loop sheet hr cols acc = Inr hs"
  by (induction cols arbitrary: acc) (auto simp: sheet_cell_def get_column_letter_def)

lemma data_type_loop_map_of:
  "data_type_loop sheet dr cols hs = Inr hs' \<Longrightarrow>
   map_of hs' c =
     (if c \<in> set cols
      then map_option (\<lambda>h. h\<lparr>data_type := Some (detect_data_type (cell_value_at sheet dr c))\<rparr>) (map_of hs c)
      else map_of hs c)"
proof (induction cols arbitrary: hs)
  case Nil
  then show ?case by simp
next
  case (Cons col cols)
  from Cons.prems have ok: "1 \<le> dr" "1 \<le> col"
    and rest: "data_type_loop sheet dr cols
        (AList.map_entry col (\<lambda>h. h\<lparr>data_type := Some (detect_data_type (cell_value_at sheet dr col))\<rparr>) hs) = Inr hs'"
    by (auto simp: sheet_cell_def split: if_splits)
  from Cons.IH [OF rest] show ?case
    by (auto simp: AList.map_of_map_entry split: option.splits)
qed

lemma map_fst_map_entry: "map fst (AList.map_entry k f xs) = map fst xs"
  by (induction xs) auto

lemma data_type_loop_keys:
  "data_type_loop sheet dr cols hs = Inr hs' \<Longrightarrow> map fst hs' = map fst hs"
  by (induction cols arbitrary: hs) (auto simp: map_fst_map_entry split: sum.splits)

lemma data_type_loop_ok:
  "1 \<le> dr \<Longrightarrow> \<forall>c \<in> set cols. 1 \<le> c \<Longrightarrow> \<exists>hs'. data_type_loop sheet dr cols hs = Inr hs'"
  by (induction cols arbitrary: hs) (auto simp: sheet_cell_def)


lemma sheets_loop_other:
  "sheets_loop wb hr names acc = Inr shs \<Longrightarrow> n \<notin> set names \<Longrightarrow> map_of shs n = map_of acc n"
  by (induction names arbitrary: acc) (auto simp: AList.update_conv' split: sum.splits)

lemma sheets_loop_lookup:
  "sheets_loop wb hr names acc = Inr shs \<Longrightarrow> n \<in> set names \<Longrightarrow>
   \<exists>sheet ss. map_of (worksheets wb) n = Some sheet \<and> extract_sheet sheet hr = Inr ss
      \<and> map_of shs n = Some ss"
proof (induction names arbitrary: acc)
  case Nil
  then show ?case by simp
next
  case (Cons sheet_name rest)
  from Cons.prems(1) obtain sheet ss where
    sheet: "map_of (worksheets wb) sheet_name = Some sheet"
    and ss: "extract_sheet sheet hr = Inr ss"
    and loop: "sheets_loop wb hr rest (AList.update sheet_name ss acc) = Inr shs"
    by (auto simp: workbook_getitem_def split: sum.splits option.splits)
  show ?case
  proof (cases "n \<in> set rest")
    case True
    from Cons.IH [OF loop True] show ?thesis .
  next
    case False
    with Cons.prems(2) have "n = sheet_name" by simp
    moreover from sheets_loop_other [OF loop False] have "map_of shs n = map_of (AList.update sheet_name ss acc) n" .
    ultimately show ?thesis using sheet ss by (simp add: AList.update_conv')
  qed
qed

lemma sheets_loop_keys:
  "sheets_loop wb hr names acc = Inr shs \<Longrightarrow> fst ` set shs = fst ` set acc \<union> set names"
  by (induction names arbitrary: acc) (auto simp: AList.dom_update split: sum.splits)

lemma sheets_loop_distinct:
  "sheets_loop wb hr names acc = Inr shs \<Longrightarrow> distinct (map fst acc) \<Longrightarrow> distinct (map fst shs)"
  by (induction names arbitrary: acc) (auto simp: AList.distinct_update split: sum.splits)

lemma int_keys_set: "(k, h) \<in> set (int_keys hs) \<longleftrightarrow> (\<exists>c. k = KInt c \<and> (c, h) \<in> set hs)"
  by (auto simp: int_keys_def)

lemma int_keys_map_of: "map_of (int_keys hs) (KInt c) = map_of hs c"
  by (induction hs) (auto simp: int_keys_def)

lemma int_keys_distinct: "distinct (map fst hs) \<Longrightarrow> distinct (map fst (int_keys hs))"
  by (induction hs) (force simp: int_keys_def)+

lemma extract_sheet_headers:
  assumes "extract_sheet sheet hr = Inr ss" and "max_row sheet \<ge> hr" and "max_column sheet > 0"
  shows "\<exists>hs. headers ss = Some (int_keys hs) \<and> distinct (map fst hs)
           \<and> (\<forall>c. map_of hs c =
                 (if 1 \<le> c \<and> c \<le> max_column sheet \<and> truthy (cell_value_at sheet hr c)
                  then Some (typed_header sheet hr c) else None))"
proof -
  from assms obtain hs0 where loop: "header_loop sheet hr [1..max_column sheet] [] = Inr hs0"
    by (auto simp: extract_sheet_def Let_def split: sum.splits)
  have d0: "distinct (map fst hs0)"
    using header_loop_distinct [OF loop] by simp
  have m0: "map_of hs0 c =
      (if 1 \<le> c \<and> c \<le> max_column sheet \<and> truthy (cell_value_at sheet hr c)
       then Some (header_of sheet hr c) else None)" for c
    using header_loop_map_of [OF loop, of c] by simp
  show ?thesis
  proof (cases "max_row sheet \<ge> hr + 1")
    case False
    with assms loop have "headers ss = Some (int_keys hs0)"
      by (auto simp: extract_sheet_def Let_def)
    with d0 m0 False show ?thesis
      by (auto simp: typed_header_def)
  next
    case True
    with assms loop obtain hs1 where
      tl: "data_type_loop sheet (hr + 1) (map fst hs0) hs0 = Inr hs1"
      and h: "headers ss = Some (int_keys hs1)"
      by (auto simp: extract_sheet_def Let_def split: sum.splits)
    have d1: "distinct (map fst hs1)"
      using data_type_loop_keys [OF tl] d0 by simp
    have m1: "map_of hs1 c =
      (if 1 \<le> c \<and> c \<le> max_column sheet \<and> truthy (cell_value_at sheet hr c)
       then Some (typed_header sheet hr c) else None)" for c
    proof (cases "c \<in> set (map fst hs0)")
      case True
      then have "map_of hs0 c \<noteq> None"
        by (simp add: map_of_eq_None_iff)
      with m0 [of c] have "map_of hs0 c = Some (header_of sheet hr c)"
        and "1 \<le> c \<and> c \<le> max_column sheet \<and> truthy (cell_value_at sheet hr c)"
        by (auto split: if_splits)
      with data_type_loop_map_of [OF tl, of c] True \<open>max_row sheet \<ge> hr + 1\<close> show ?thesis
        by (simp add: typed_header_def)
    next
      case False
      then have "map_of hs0 c = None"
        by (simp add: map_of_eq_None_iff)
      with data_type_loop_map_of [OF tl, of c] False m0 [of c] show ?thesis
        by (auto split: if_splits)
    qed
    from h d1 m1 show ?thesis by blast
  qed
qed

lemma extract_sheet_no_headers:
  assumes "extract_sheet sheet hr = Inr ss" and "\<not> (max_row sheet \<ge> hr \<and> max_column sheet > 0)"
  shows "headers ss = None"
  using assms by (auto simp: extract_sheet_def Let_def)

lemma extract_sheet_ok:
  assumes "1 \<le> hr" and "max_column sheet \<le> 18278"
  shows "\<exists>ss. extract_sheet sheet hr = Inr ss"
proof (cases "max_row sheet \<ge> hr \<and> max_column sheet > 0")
  case False
  then show ?thesis by (auto simp: extract_sheet_def Let_def)
next
  case True
  from assms have "\<forall>c \<in> set [1..max_column sheet]. 1 \<le> c \<and> c \<le> 18278" by auto
  from header_loop_ok [OF assms(1) this] obtain hs0 where
    loop: "header_loop sheet hr [1..max_column sheet] [] = Inr hs0" by blast
  have keys: "\<forall>c \<in> set (map fst hs0). 1 \<le> c"
  proof
    fix c assume "c \<in> set (map fst hs0)"
    then have "map_of hs0 c \<noteq> None" by (simp add: map_of_eq_None_iff)
    with header_loop_map_of [OF loop, of c] show "1 \<le> c" by (auto split: if_splits)
  qed
  from assms(1) have "1 \<le> hr + 1" by simp
  from data_type_loop_ok [OF this keys] obtain hs1 where
    "data_type_loop sheet (hr + 1) (map fst hs0) hs0 = Inr hs1" by blast
  with loop True show ?thesis
    by (auto simp: extract_sheet_def Let_def)
qed

subsection \<open>extract_structure\<close>

lemma sample_sync_constructed: "ExcelSync_init sample_files ''/tmp/sample.xlsx'' 1 = Inr sample_sync"
  by (simp add: ExcelSync_init_def sample_files_def sample_sync_def)

lemma sample_extract: "extract_structure sample_sync None = Inr sample_structure"
  by code_simp

lemma extract_structure_sheets:
  assumes "extract_structure self hr_arg = Inr st"
  shows "\<exists>shs. sheets st = Some shs
     \<and> sheets_loop (workbook self) (effective_header_row self hr_arg) (sheetnames (workbook self)) [] = Inr shs"
  using assms by (auto simp: extract_structure_def Let_def split: sum.splits)

lemma extract_structure_header_row:
  assumes "extract_structure self hr_arg = Inr st"
  shows "get_header_row st = Some (effective_header_row self hr_arg)"
  using assms by (auto simp: extract_structure_def Let_def get_header_row_def split: sum.splits)

lemma extract_structure_sheet:
  assumes "extract_structure self hr_arg = Inr st"
    and "map_of (worksheets (workbook self)) sheet_name = Some sheet"
  shows "\<exists>shs ss. sheets st = Some shs \<and> map_of shs sheet_name = Some ss
           \<and> extract_sheet sheet (effective_header_row self hr_arg) = Inr ss"
proof -
  from extract_structure_sheets [OF assms(1)] obtain shs where
    shs: "sheets st = Some shs"
    and loop: "sheets_loop (workbook self) (effective_header_row self hr_arg)
                 (sheetnames (workbook self)) [] = Inr shs"
    by blast
  from assms(2) have "sheet_name \<in> set (sheetnames (workbook self))"
    by (auto simp: sheetnames_def dest: map_of_SomeD intro: rev_image_eqI)
  from sheets_loop_lookup [OF loop this] assms(2) shs show ?thesis by auto
qed

text \<open>
  Claim C3. In a sheet with \<open>max_row >= header_row\<close> and \<open>max_column > 0\<close>, a column
  between 1 and \<open>max_column\<close> is a key of the extracted \<open>headers\<close> exactly when the value of
  its header cell is truthy; so a header cell holding 0 or the empty string gives no entry.
\<close>

theorem header_present_iff_truthy:
  assumes "extract_structure self hr_arg = Inr st"
    and "map_of (worksheets (workbook self)) sheet_name = Some sheet"
    and "max_row sheet \<ge> effective_header_row self hr_arg"
    and "max_column sheet > 0"
    and "1 \<le> col" and "col \<le> max_column sheet"
  shows "\<exists>shs ss hs. sheets st = Some shs \<and> map_of shs sheet_name = Some ss
           \<and> headers ss = Some hs
           \<and> (KInt col \<in> fst ` set hs
                \<longleftrightarrow> truthy (cell_value_at sheet (effective_header_row self hr_arg) col))
           \<and> (cells sheet (effective_header_row self hr_arg, col) \<in> {Some (VInt 0), Some (VStr [])}
                \<longrightarrow> KInt col \<notin> fst ` set hs)"
proof -
  from extract_structure_sheet [OF assms(1,2)] obtain shs ss where
    shs: "sheets st = Some shs" "map_of shs sheet_name = Some ss"
    and ss: "extract_sheet sheet (effective_header_row self hr_arg) = Inr ss"
    by blast
  from extract_sheet_headers [OF ss assms(3,4)] obtain hs where
    hs: "headers ss = Some (int_keys hs)"
    and m: "\<And>c. map_of hs c =
         (if 1 \<le> c \<and> c \<le> max_column sheet
               \<and> truthy (cell_value_at sheet (effective_header_row self hr_arg) c)
          then Some (typed_header sheet (effective_header_row self hr_arg) c) else None)"
    by blast
  have "KInt col \<in> fst ` set (int_keys hs) \<longleftrightarrow> map_of (int_keys hs) (KInt col) \<noteq> None"
    by (simp add: map_of_eq_None_iff)
  also have "\<dots> \<longleftrightarrow> truthy (cell_value_at sheet (effective_header_row self hr_arg) col)"
    using m [of col] assms(5,6) by (simp add: int_keys_map_of)
  finally have iff: "KInt col \<in> fst ` set (int_keys hs)
      \<longleftrightarrow> truthy (cell_value_at sheet (effective_header_row self hr_arg) col)" .
  then have "KInt col \<notin> fst ` set (int_keys hs)"
    if "cells sheet (effective_header_row self hr_arg, col) \<in> {Some (VInt 0), Some (VStr [])}"
    using that by (auto simp: cell_value_at_def)
  with iff shs hs show ?thesis by blast
qed

theorem header_present_iff_truthy_witness:
  "extract_structure sample_sync None = Inr sample_structure
   \<and> cells sheet2 (1, 3) = Some (VInt 0)
   \<and> (\<exists>shs ss hs. sheets sample_structure = Some shs \<and> map_of shs ''Sheet2'' = Some ss
          \<and> headers ss = Some hs \<and> KInt 3 \<notin> fst ` set hs \<and> KInt 1 \<in> fst ` set hs)"
proof -
  have a: "map_of (worksheets (workbook sample_sync)) ''Sheet2'' = Some sheet2"
    by (simp add: sample_sync_def sample_workbook_def)
  have b: "max_row sheet2 \<ge> effective_header_row sample_sync None" "max_column sheet2 > 0"
    by (simp_all add: sheet2_def sample_sync_def effective_header_row_def)
  have c: "(1::int) \<le> 3" "3 \<le> max_column sheet2" "(1::int) \<le> 1" "1 \<le> max_column sheet2"
    by (simp_all add: sheet2_def)
  have v: "cells sheet2 (1, 3) = Some (VInt 0)" "cells sheet2 (1, 1) = Some (VStr ''Product'')"
    by (simp_all add: sheet2_def)
  have e: "effective_header_row sample_sync None = 1"
    by (simp add: sample_sync_def effective_header_row_def)
  from header_present_iff_truthy [OF sample_extract a b c(1,2)] obtain shs ss hs where
    s: "sheets sample_structure = Some shs" "map_of shs ''Sheet2'' = Some ss" "headers ss = Some hs"
    and k3: "KInt 3 \<notin> fst ` set hs"
    by (auto simp: e v cell_value_at_def)
  from header_present_iff_truthy [OF sample_extract a b c(3,4)] s
  have k1: "KInt 1 \<in> fst ` set hs"
    by (simp add: e v cell_value_at_def)
  from s k3 k1 sample_extract v(1) show ?thesis by blast
qed


lemma data_type_typed_header:
  "data_type (typed_header sheet hr c) =
     (if max_row sheet \<ge> hr + 1 then Some (detect_data_type (cell_value_at sheet (hr + 1) c))
      else None)"
  by (simp add: typed_header_def header_of_def)

text \<open>
  Claim C4. Every entry of an extracted \<open>headers\<close> dictionary has the key \<open>data_type\<close>
  exactly when \<open>max_row >= header_row + 1\<close>, and its value is then the detected type of the
  one cell of that column in row \<open>header_row + 1\<close>.
\<close>

theorem data_type_iff_data_row:
  assumes "extract_structure self hr_arg = Inr st"
    and "map_of (worksheets (workbook self)) sheet_name = Some sheet"
    and "sheets st = Some shs" and "map_of shs sheet_name = Some ss"
    and "headers ss = Some hs" and "(k, info) \<in> set hs"
    and "hr = effective_header_row self hr_arg"
  shows "(data_type info \<noteq> None \<longleftrightarrow> max_row sheet \<ge> hr + 1)
       \<and> (\<exists>col. k = KInt col
             \<and> data_type info =
                 (if max_row sheet \<ge> hr + 1
                  then Some (detect_data_type (cell_value_at sheet (hr + 1) col)) else None))"
proof -
  from extract_structure_sheet [OF assms(1,2)] assms(3,4,7)
  have ss: "extract_sheet sheet hr = Inr ss" by auto
  from extract_sheet_no_headers [OF ss] assms(5)
  have cond: "max_row sheet \<ge> hr" "max_column sheet > 0" by auto
  from extract_sheet_headers [OF ss cond] assms(5) obtain hs' where
    hs': "hs = int_keys hs'" and d: "distinct (map fst hs')"
    and m: "\<And>c. map_of hs' c =
         (if 1 \<le> c \<and> c \<le> max_column sheet \<and> truthy (cell_value_at sheet hr c)
          then Some (typed_header sheet hr c) else None)"
    by auto
  from assms(6) hs' obtain c where k: "k = KInt c" and c: "(c, info) \<in> set hs'"
    by (auto simp: int_keys_set)
  from c d have "map_of hs' c = Some info" by simp
  with m [of c] have "info = typed_header sheet hr c"
    by (auto split: if_splits)
  with k show ?thesis
    by (auto simp: data_type_typed_header)
qed

theorem data_type_iff_data_row_witness:
  "extract_structure sample_sync None = Inr sample_structure
   \<and> max_row sheet1 \<ge> 1 + 1
   \<and> cell_value_at sheet1 (1 + 1) 4 = VStr ''2023-01-01''
   \<and> data_type \<lparr>name = Some ''Date'', column_letter = Some ''D'', data_type = Some ''datetime''\<rparr>
       = Some (detect_data_type (VStr ''2023-01-01''))"
proof -
  let ?info = "\<lparr>name = Some ''Date'', column_letter = Some ''D'', data_type = Some ''datetime''\<rparr>"
  let ?ss = "\<lparr>columns = [], rows = 3, columns_count = 4, merged_cells = [],
           headers = Some
             [(KInt 1, \<lparr>name = Some ''ID'', column_letter = Some ''A'',
                        data_type = Some ''integer''\<rparr>),
              (KInt 2, \<lparr>name = Some ''Name'', column_letter = Some ''B'',
                        data_type = Some ''string''\<rparr>),
              (KInt 3, \<lparr>name = Some ''Age'', column_letter = Some ''C'',
                        data_type = Some ''integer''\<rparr>),
              (KInt 4, ?info)]\<rparr>"
  have a: "map_of (worksheets (workbook sample_sync)) ''Sheet1'' = Some sheet1"
    by (simp add: sample_sync_def sample_workbook_def)
  have b: "sheets sample_structure = Some (the (sheets sample_structure))"
    "map_of (the (sheets sample_structure)) ''Sheet1'' = Some ?ss"
    "headers ?ss = Some (the (headers ?ss))"
    "(KInt 4, ?info) \<in> set (the (headers ?ss))"
    by (simp_all add: sample_structure_def)
  have e: "1 = effective_header_row sample_sync None"
    by (simp add: sample_sync_def effective_header_row_def)
  have v: "max_row sheet1 \<ge> 1 + 1" "cell_value_at sheet1 (1 + 1) 4 = VStr ''2023-01-01''"
    by (simp_all add: sheet1_def cell_value_at_def)
  from data_type_iff_data_row [OF sample_extract a b e] v sample_extract
  show ?thesis by simp
qed

subsection \<open>validate_structure\<close>

lemma extract_sheet_extracted_headers:
  assumes "extract_sheet sheet hr = Inr ss"
  shows "extracted_headers (get_headers ss)"
proof (cases "max_row sheet \<ge> hr \<and> max_column sheet > 0")
  case False
  from extract_sheet_no_headers [OF assms False] show ?thesis
    by (simp add: get_headers_def extracted_headers_def)
next
  case True
  then have cond: "max_row sheet \<ge> hr" "max_column sheet > 0" by auto
  from extract_sheet_headers [OF assms cond] obtain hs where
    hs: "headers ss = Some (int_keys hs)" and d: "distinct (map fst hs)"
    and m: "\<And>c. map_of hs c =
         (if 1 \<le> c \<and> c \<le> max_column sheet \<and> truthy (cell_value_at sheet hr c)
          then Some (typed_header sheet hr c) else None)"
    by auto
  have "int_key k \<and> name h \<noteq> None" if "(k, h) \<in> set (int_keys hs)" for k h
  proof -
    from that obtain c where k: "k = KInt c" and c: "(c, h) \<in> set hs"
      by (auto simp: int_keys_set)
    from c d have "map_of hs c = Some h" by simp
    with m [of c] have "h = typed_header sheet hr c" by (auto split: if_splits)
    with k show ?thesis by (simp add: int_key_def typed_header_def header_of_def)
  qed
  with hs d show ?thesis
    by (auto simp: get_headers_def extracted_headers_def int_keys_distinct list_all_iff)
qed

lemma column_loop_same:
  assumes "extracted_headers cur" and "set its \<subseteq> set cur"
  shows "column_loop sheet_name cur its issues = Inr issues"
  using assms(2)
proof (induction its)
  case Nil
  then show ?case by simp
next
  case (Cons it its)
  obtain k h where it: "it = (k, h)" by (cases it)
  with Cons.prems have mem: "(k, h) \<in> set cur" by simp
  with assms(1) obtain c nm where k: "k = KInt c" and nm: "name h = Some nm"
    by (auto simp: extracted_headers_def list_all_iff int_key_def split: key.splits)
  from mem assms(1) have "map_of cur k = Some h"
    by (simp add: extracted_headers_def)
  with k nm it Cons show ?case
    by (simp add: coerce_col_def)
qed

lemma expected_sheets_loop_same:
  assumes "\<And>n. n \<in> set names \<Longrightarrow>
             \<exists>ss. map_of (get_sheets st) n = Some ss \<and> extracted_headers (get_headers ss)"
  shows "expected_sheets_loop st st names issues = Inr issues"
  using assms
proof (induction names)
  case Nil
  then show ?case by simp
next
  case (Cons n names)
  from Cons.prems [of n] obtain ss where
    ss: "map_of (get_sheets st) n = Some ss" and e: "extracted_headers (get_headers ss)"
    by auto
  have "column_loop n (get_headers ss) (get_headers ss) issues = Inr issues"
    by (rule column_loop_same [OF e]) simp
  moreover have "expected_sheets_loop st st names issues = Inr issues"
    by (rule Cons.IH) (simp add: Cons.prems)
  ultimately show ?case using ss by simp
qed

lemma header_row_issues_same: "header_row_issues st st = []"
  by (simp add: header_row_issues_def split: option.splits)

lemma validate_extracted:
  assumes "extract_structure self hr_arg = Inr st"
  shows "validate_structure self (Some st) hr_arg = Inr (True, [])"
proof -
  from extract_structure_sheets [OF assms] obtain shs where
    shs: "sheets st = Some shs"
    and loop: "sheets_loop (workbook self) (effective_header_row self hr_arg)
                 (sheetnames (workbook self)) [] = Inr shs"
    by blast
  have "\<exists>ss. map_of (get_sheets st) n = Some ss \<and> extracted_headers (get_headers ss)"
    if "n \<in> set (map fst (get_sheets st))" for n
  proof -
    from that shs sheets_loop_keys [OF loop] have "n \<in> set (sheetnames (workbook self))"
      by (simp add: get_sheets_def)
    from sheets_loop_lookup [OF loop this] obtain sheet ss where
      "extract_sheet sheet (effective_header_row self hr_arg) = Inr ss" "map_of shs n = Some ss"
      by blast
    with shs extract_sheet_extracted_headers show ?thesis
      by (auto simp: get_sheets_def)
  qed
  then have "expected_sheets_loop st st (map fst (get_sheets st)) [] = Inr []"
    by (rule expected_sheets_loop_same)
  with assms show ?thesis
    by (simp add: validate_structure_def header_row_issues_same)
qed

lemma sheets_loop_ok:
  assumes "1 \<le> hr" and "column_limit wb" and "set names \<subseteq> set (sheetnames wb)"
  shows "\<exists>shs. sheets_loop wb hr names acc = Inr shs"
  using assms(3)
proof (induction names arbitrary: acc)
  case Nil
  then show ?case by simp
next
  case (Cons n names)
  then have "n \<in> fst ` set (worksheets wb)" by (simp add: sheetnames_def)
  then obtain sheet where sheet: "map_of (worksheets wb) n = Some sheet"
    by (metis domD dom_map_of_conv_image_fst)
  then have "(n, sheet) \<in> set (worksheets wb)" by (rule map_of_SomeD)
  with assms(2) have "max_column sheet \<le> 18278"
    by (auto simp: column_limit_def list_all_iff)
  from extract_sheet_ok [OF assms(1) this] obtain ss where "extract_sheet sheet hr = Inr ss"
    by blast
  with sheet Cons show ?case
    by (simp add: workbook_getitem_def)
qed

lemma extract_structure_ok:
  assumes "1 \<le> effective_header_row self hr_arg" and "column_limit (workbook self)"
  shows "\<exists>st. extract_structure self hr_arg = Inr st"
proof -
  from sheets_loop_ok [OF assms, of "sheetnames (workbook self)" "[]"] obtain shs where
    "sheets_loop (workbook self) (effective_header_row self hr_arg) (sheetnames (workbook self)) []
       = Inr shs"
    by auto
  then show ?thesis by (simp add: extract_structure_def Let_def)
qed

text \<open>
  Claim C5. Validating a workbook against the structure just extracted from it, with the
  same header row, returns \<open>(True, [])\<close>; and the extraction does return a structure for
  every header row from 1 on and every workbook within openpyxl's column limit.
\<close>

theorem validate_own_structure:
  "(extract_structure self hr_arg = Inr st
      \<longrightarrow> validate_structure self (Some st) hr_arg = Inr (True, []))
   \<and> (1 \<le> effective_header_row self hr_arg \<and> column_limit (workbook self)
      \<longrightarrow> (\<exists>st'. extract_structure self hr_arg = Inr st'))"
  using validate_extracted extract_structure_ok by blast

theorem validate_own_structure_witness:
  "extract_structure sample_sync None = Inr sample_structure
   \<and> validate_structure sample_sync (Some sample_structure) None = Inr (True, [])
   \<and> 1 \<le> effective_header_row sample_sync None \<and> column_limit (workbook sample_sync)"
proof -
  have "1 \<le> effective_header_row sample_sync None \<and> column_limit (workbook sample_sync)"
    by (simp add: effective_header_row_def column_limit_def sample_sync_def sample_workbook_def
        sheet1_def sheet2_def)
  with validate_own_structure [of sample_sync None sample_structure] sample_extract
  show ?thesis by simp
qed

text \<open>
  Claim C6. Without an expected structure, validation returns \<open>(True, [])\<close> and no issue:
  whenever the extraction that the method runs first returns, hence for every header row
  from 1 on and every workbook within openpyxl's column limit.
\<close>

theorem validate_without_expected:
  "(extract_structure self hr_arg = Inr st
      \<longrightarrow> validate_structure self None hr_arg = Inr (True, []))
   \<and> (1 \<le> effective_header_row self hr_arg \<and> column_limit (workbook self)
      \<longrightarrow> validate_structure self None hr_arg = Inr (True, []))"
proof -
  have "validate_structure self None hr_arg = Inr (True, [])"
    if "extract_structure self hr_arg = Inr st'" for st'
    using that by (simp add: validate_structure_def)
  with extract_structure_ok [of self hr_arg] show ?thesis by blast
qed

theorem validate_without_expected_witness:
  "extract_structure sample_sync None = Inr sample_structure
   \<and> validate_structure sample_sync None None = Inr (True, [])
   \<and> 1 \<le> effective_header_row sample_sync (Some 3) \<and> column_limit (workbook sample_sync)
   \<and> validate_structure sample_sync None (Some 3) = Inr (True, [])"
proof -
  have "1 \<le> effective_header_row sample_sync (Some 3) \<and> column_limit (workbook sample_sync)"
    by (simp add: effective_header_row_def column_limit_def sample_sync_def sample_workbook_def
        sheet1_def sheet2_def)
  with validate_without_expected [of sample_sync "Some 3"]
       validate_without_expected [of sample_sync None sample_structure] sample_extract
  show ?thesis by simp
qed

subsection \<open>Decimal strings and int\<close>

lemma less_ten_cases:
  "d < 10 \<Longrightarrow> d = 0 \<or> d = 1 \<or> d = 2 \<or> d = 3 \<or> d = 4 \<or> d = 5 \<or> d = 6 \<or> d = 7 \<or> d = 8 \<or> d = (9::nat)"
  by arith

lemma digit_value_digit_char: "d < 10 \<Longrightarrow> digit_value (digit_char d) = Some d"
  by (drule less_ten_cases) (auto simp: digit_value_def digit_char_def)

lemma digit_char_plain:
  "d < 10 \<Longrightarrow> \<not> is_space (digit_char d) \<and> digit_char d \<noteq> CHR ''-'' \<and> digit_char d \<noteq> CHR ''+''"
  by (drule less_ten_cases) (auto simp: is_space_def digit_char_def)

lemma digits_loop_digit:
  "digit_value c = Some d \<Longrightarrow> digits_loop acc (c # cs) = digits_loop (10 * acc + d) cs"
  by (cases cs) simp_all

lemma digits_loop_all_digits:
  "all_digits s \<Longrightarrow> digits_loop acc s = Inr (digits_number acc s)"
proof (induction s arbitrary: acc)
  case Nil
  then show ?case by (simp add: digits_number_def)
next
  case (Cons c s)
  then obtain d where d: "digit_value c = Some d" and s: "all_digits s"
    by (auto simp: all_digits_def)
  from Cons.IH [OF s] d show ?case
    by (simp add: digits_loop_digit digits_number_def)
qed

lemma str_nat_all_digits: "all_digits (str_nat n)"
proof (induction n rule: str_nat.induct)
  case (1 n)
  show ?case
  proof (cases "n < 10")
    case True
    then show ?thesis
      by (simp add: str_nat.simps [of n] all_digits_def digit_value_digit_char)
  next
    case False
    with 1 have "all_digits (str_nat (n div 10))" by simp
    moreover have "digit_value (digit_char (n mod 10)) = Some (n mod 10)"
      by (simp add: digit_value_digit_char)
    ultimately show ?thesis using False
      by (simp add: str_nat.simps [of n] all_digits_def)
  qed
qed

lemma str_nat_number: "digits_number 0 (str_nat n) = n"
proof (induction n rule: str_nat.induct)
  case (1 n)
  show ?case
  proof (cases "n < 10")
    case True
    then show ?thesis
      by (simp add: str_nat.simps [of n] digits_number_def digit_value_digit_char)
  next
    case False
    with 1 have "digits_number 0 (str_nat (n div 10)) = n div 10" by simp
    moreover have "digit_value (digit_char (n mod 10)) = Some (n mod 10)"
      by (simp add: digit_value_digit_char)
    ultimately show ?thesis using False
      by (simp add: str_nat.simps [of n] digits_number_def)
  qed
qed

lemma str_nat_hd: "\<exists>d cs. d < 10 \<and> str_nat n = digit_char d # cs"
proof (induction n rule: str_nat.induct)
  case (1 n)
  show ?case
  proof (cases "n < 10")
    case True
    then show ?thesis by (auto simp: str_nat.simps [of n])
  next
    case False
    with 1 obtain d cs where "d < 10" "str_nat (n div 10) = digit_char d # cs" by auto
    with False have "d < 10 \<and> str_nat n = digit_char d # (cs @ [digit_char (n mod 10)])"
      by (simp add: str_nat.simps [of n])
    then show ?thesis by blast
  qed
qed

lemma str_nat_last: "str_nat n \<noteq> [] \<and> last (str_nat n) = digit_char (n mod 10)"
  by (simp add: str_nat.simps [of n])

lemma parse_digits_str_nat: "parse_digits (str_nat n) = Inr n"
proof -
  from str_nat_hd [of n] obtain d cs where d: "d < 10" and s: "str_nat n = digit_char d # cs"
    by blast
  from str_nat_all_digits [of n] s have cs: "all_digits cs" by (simp add: all_digits_def)
  have "parse_digits (str_nat n) = digits_loop d cs"
    using s d by (simp add: parse_digits_def digit_value_digit_char)
  also have "\<dots> = Inr (digits_number d cs)"
    by (rule digits_loop_all_digits [OF cs])
  also have "digits_number d cs = digits_number 0 (str_nat n)"
    using s d by (simp add: digits_number_def digit_value_digit_char)
  finally show ?thesis by (simp add: str_nat_number)
qed

lemma strip_plain:
  assumes "s \<noteq> []" and "\<not> is_space (hd s)" and "\<not> is_space (last s)"
  shows "strip s = s"
proof -
  from assms have "dropWhile is_space s = s"
    by (cases s) simp_all
  moreover from assms have "dropWhile is_space (rev s) = rev s"
    by (cases "rev s") (simp_all add: last_rev [symmetric] hd_rev)
  ultimately show ?thesis by (simp add: strip_def)
qed

lemma str_nat_no_space: "\<not> is_space (hd (str_nat n)) \<and> \<not> is_space (last (str_nat n))"
proof -
  from str_nat_hd [of n] obtain d cs where "d < 10" "str_nat n = digit_char d # cs"
    by blast
  then have "\<not> is_space (hd (str_nat n))"
    by (simp add: digit_char_plain)
  moreover have "\<not> is_space (last (str_nat n))"
    by (simp add: str_nat_last digit_char_plain)
  ultimately show ?thesis by simp
qed

lemma strip_str_nat: "strip (str_nat n) = str_nat n"
  using str_nat_last [of n] str_nat_no_space [of n] by (intro strip_plain) blast+

lemma strip_minus_str_nat: "strip (CHR ''-'' # str_nat n) = CHR ''-'' # str_nat n"
proof (rule strip_plain)
  show "\<not> is_space (last (CHR ''-'' # str_nat n))"
    using str_nat_no_space [of n] by (simp add: str_nat_last)
qed (simp_all add: is_space_def)

lemma py_int_str_int: "py_int (str_int i) = Inr i"
proof (cases "i < 0")
  case True
  then show ?thesis
    by (simp add: py_int_def str_int_def strip_minus_str_nat parse_digits_str_nat)
next
  case False
  from str_nat_hd [of "nat i"] obtain d cs where
    d: "d < 10" and s: "str_nat (nat i) = digit_char d # cs"
    by blast
  have "strip (str_int i) = digit_char d # cs"
    using False s strip_str_nat [of "nat i"] by (simp add: str_int_def)
  moreover have "parse_digits (digit_char d # cs) = Inr (nat i)"
    using parse_digits_str_nat [of "nat i"] s by simp
  ultimately show ?thesis using False d
    by (simp add: py_int_def digit_char_plain)
qed

lemma coerce_col_json_key: "coerce_col (json_key k) = coerce_col k"
  by (cases k) (simp_all add: coerce_col_def json_key_def py_int_str_int)

lemma column_loop_key:
  assumes "coerce_col k' = coerce_col k"
    and "column_loop sheet_name cur rest' = column_loop sheet_name cur rest"
  shows "column_loop sheet_name cur ((k', h) # rest') issues
       = column_loop sheet_name cur ((k, h) # rest) issues"
  using assms by (simp split: sum.splits option.splits)

lemma column_loop_with_string_keys:
  "column_loop sheet_name cur (with_string_keys its) = column_loop sheet_name cur its"
proof (induction its)
  case Nil
  show ?case by (simp add: with_string_keys_def)
next
  case (Cons it its)
  obtain k h where it: "it = (k, h)" by (cases it)
  have "column_loop sheet_name cur ((json_key k, h) # with_string_keys its) issues
       = column_loop sheet_name cur ((k, h) # its) issues" for issues
    by (rule column_loop_key [OF coerce_col_json_key Cons.IH])
  with it show ?case
    by (simp add: with_string_keys_def fun_eq_iff)
qed

lemma get_sheets_with_string_keys:
  "get_sheets (structure_with_string_keys st)
     = map (\<lambda>(n, sheet). (n, sheet_with_string_keys sheet)) (get_sheets st)"
  by (simp add: get_sheets_def structure_with_string_keys_def split: option.splits)

lemma map_of_sheets_with_string_keys:
  "map_of (get_sheets (structure_with_string_keys st)) n
     = map_option sheet_with_string_keys (map_of (get_sheets st) n)"
  by (simp add: get_sheets_with_string_keys map_of_map)

lemma get_headers_with_string_keys:
  "get_headers (sheet_with_string_keys sheet) = with_string_keys (get_headers sheet)"
  by (simp add: get_headers_def sheet_with_string_keys_def with_string_keys_def split: option.splits)

lemma expected_sheets_loop_with_string_keys:
  "expected_sheets_loop (structure_with_string_keys expected) cur names issues
     = expected_sheets_loop expected cur names issues"
proof (induction names arbitrary: issues)
  case Nil
  show ?case by simp
next
  case (Cons n names)
  show ?case
    by (simp add: map_of_sheets_with_string_keys get_headers_with_string_keys
        column_loop_with_string_keys Cons.IH split: option.splits sum.splits)
qed

lemma header_row_issues_with_string_keys:
  "header_row_issues (structure_with_string_keys expected) cur = header_row_issues expected cur"
  by (simp add: header_row_issues_def get_header_row_def structure_with_string_keys_def)

lemma validate_structure_with_string_keys:
  "validate_structure self (Some (structure_with_string_keys expected)) hr_arg
     = validate_structure self (Some expected) hr_arg"
  by (simp add: validate_structure_def expected_sheets_loop_with_string_keys
      header_row_issues_with_string_keys get_sheets_with_string_keys
      split: sum.splits) (simp add: comp_def case_prod_unfold)

text \<open>
  Claim C7. A column key of the expected headers that is the decimal string of an integer
  is turned into that integer before the lookup in the current headers, and the issue
  texts are built from the integer: the check of one column, the check of a whole headers
  dictionary and the whole validation give the same result for string keys as for the
  integer keys.
\<close>

theorem column_keys_coerced:
  "coerce_col (KStr (str_int c)) = Inr c
   \<and> column_loop sheet_name cur [(KStr (str_int c), header_info)] issues =
       (case map_of cur (KInt c) of
          None \<Rightarrow> Inr (issues @ [''Missing column '' @ str_int c @ '' in sheet '' @ sheet_name])
        | Some current_info \<Rightarrow>
            (case name current_info of
               None \<Rightarrow> Inl KeyError
             | Some current_name \<Rightarrow>
                 (case name header_info of
                    None \<Rightarrow> Inl KeyError
                  | Some expected_name \<Rightarrow>
                      Inr (if current_name \<noteq> expected_name
                           then issues @
                             [''Header mismatch in sheet '' @ sheet_name @ '', column ''
                                @ str_int c @ '': expected '' @ [CHR 0x27] @ expected_name
                                @ [CHR 0x27] @ '', got '' @ [CHR 0x27] @ current_name
                                @ [CHR 0x27]]
                           else issues))))
   \<and> column_loop sheet_name cur ((KStr (str_int c), header_info) # rest) issues
       = column_loop sheet_name cur ((KInt c, header_info) # rest) issues
   \<and> column_loop sheet_name cur (with_string_keys expected_headers) issues
       = column_loop sheet_name cur expected_headers issues
   \<and> validate_structure self (Some (structure_with_string_keys expected)) hr_arg
       = validate_structure self (Some expected) hr_arg"
proof -
  have c: "coerce_col (KStr (str_int c)) = Inr c"
    by (simp add: coerce_col_def py_int_str_int)
  then have "coerce_col (KStr (str_int c)) = coerce_col (KInt c)"
    by (simp add: coerce_col_def)
  then have "column_loop sheet_name cur ((KStr (str_int c), header_info) # rest) issues
       = column_loop sheet_name cur ((KInt c, header_info) # rest) issues"
    by (rule column_loop_key) simp
  moreover have "column_loop sheet_name cur [(KStr (str_int c), header_info)] issues =
       (case map_of cur (KInt c) of
          None \<Rightarrow> Inr (issues @ [''Missing column '' @ str_int c @ '' in sheet '' @ sheet_name])
        | Some current_info \<Rightarrow>
            (case name current_info of
               None \<Rightarrow> Inl KeyError
             | Some current_name \<Rightarrow>
                 (case name header_info of
                    None \<Rightarrow> Inl KeyError
                  | Some expected_name \<Rightarrow>
                      Inr (if current_name \<noteq> expected_name
                           then issues @
                             [''Header mismatch in sheet '' @ sheet_name @ '', column ''
                                @ str_int c @ '': expected '' @ [CHR 0x27] @ expected_name
                                @ [CHR 0x27] @ '', got '' @ [CHR 0x27] @ current_name
                                @ [CHR 0x27]]
                           else issues))))"
    using c by (simp split: option.splits)
  ultimately show ?thesis
    using c by (simp add: column_loop_with_string_keys validate_structure_with_string_keys)
qed

theorem column_keys_coerced_witness:
  "validate_structure sample_sync (Some (structure_with_string_keys expected_sample)) None
     = Inr (False,
         [''Header mismatch in sheet Sheet1, column 1: expected '' @ [CHR 0x27] @ ''Modified''
            @ [CHR 0x27] @ '', got '' @ [CHR 0x27] @ ''ID'' @ [CHR 0x27],
          ''Missing column 9 in sheet Sheet1'',
          ''Missing sheet: Sheet3''])
   \<and> map_of (get_headers (sheet_with_string_keys (snd (hd (get_sheets expected_sample)))))
         (KStr ''9'') \<noteq> None"
proof -
  have "validate_structure sample_sync (Some expected_sample) None
     = Inr (False,
         [''Header mismatch in sheet Sheet1, column 1: expected '' @ [CHR 0x27] @ ''Modified''
            @ [CHR 0x27] @ '', got '' @ [CHR 0x27] @ ''ID'' @ [CHR 0x27],
          ''Missing column 9 in sheet Sheet1'',
          ''Missing sheet: Sheet3''])"
    by code_simp
  moreover have "map_of (get_headers (sheet_with_string_keys (snd (hd (get_sheets expected_sample)))))
         (KStr ''9'') \<noteq> None"
    by code_simp
  ultimately show ?thesis
    using column_keys_coerced [where self = sample_sync and expected = expected_sample
        and hr_arg = None]
    by simp
qed

subsection \<open>to_json_schema and generate_yaml_template\<close>

lemma properties_loop_keys:
  "fst ` set (properties_loop hs props) = fst ` set props \<union> (name \<circ> snd) ` set hs"
proof (induction hs arbitrary: props)
  case Nil
  show ?case by simp
next
  case (Cons a hs)
  obtain k h where a: "a = (k, h)" by (cases a)
  have "fst ` set (properties_loop (a # hs) props)
      = fst ` set (AList.update (name h) (property_of h) props) \<union> (name \<circ> snd) ` set hs"
    using Cons.IH a by simp
  also have "\<dots> = fst ` set props \<union> (name \<circ> snd) ` set (a # hs)"
    unfolding AList.dom_update using a by auto
  finally show ?case .
qed

lemma properties_loop_distinct:
  "distinct (map fst props) \<Longrightarrow> distinct (map fst (properties_loop hs props))"
  by (induction hs arbitrary: props) (auto simp: AList.distinct_update)

lemma properties_loop_other:
  "p \<notin> (name \<circ> snd) ` set hs \<Longrightarrow> map_of (properties_loop hs props) p = map_of props p"
  by (induction hs arbitrary: props) (auto simp: AList.update_conv')

lemma properties_loop_last:
  "p \<notin> (name \<circ> snd) ` set post \<Longrightarrow> name h = p \<Longrightarrow>
   map_of (properties_loop (pre @ (k, h) # post) props) p = Some (property_of h)"
  by (induction pre arbitrary: props) (auto simp: AList.update_conv' properties_loop_other)

lemma properties_loop_from_header:
  "map_of (properties_loop hs props) p = Some ps \<Longrightarrow>
   map_of props p = Some ps \<or> (\<exists>(k, h) \<in> set hs. name h = p \<and> ps = property_of h)"
proof (induction hs arbitrary: props)
  case Nil
  then show ?case by simp
next
  case (Cons a hs)
  obtain k h where a: "a = (k, h)" by (cases a)
  from Cons.prems a
  have "map_of (properties_loop hs (AList.update (name h) (property_of h) props)) p = Some ps"
    by simp
  from Cons.IH [OF this] a show ?case
    by (auto simp: AList.update_conv' split: if_splits)
qed

lemma example_row_loop_keys:
  "fst ` set (example_row_loop hs row) = fst ` set row \<union> (name \<circ> snd) ` set hs"
proof (induction hs arbitrary: row)
  case Nil
  show ?case by simp
next
  case (Cons a hs)
  obtain k h where a: "a = (k, h)" by (cases a)
  have "fst ` set (example_row_loop (a # hs) row)
      = fst ` set (AList.update (name h) (get_type_example (get_data_type h)) row)
          \<union> (name \<circ> snd) ` set hs"
    using Cons.IH a by simp
  also have "\<dots> = fst ` set row \<union> (name \<circ> snd) ` set (a # hs)"
    unfolding AList.dom_update using a by auto
  finally show ?case .
qed

lemma example_row_loop_distinct:
  "distinct (map fst row) \<Longrightarrow> distinct (map fst (example_row_loop hs row))"
  by (induction hs arbitrary: row) (auto simp: AList.distinct_update)

lemma example_row_loop_other:
  "p \<notin> (name \<circ> snd) ` set hs \<Longrightarrow> map_of (example_row_loop hs row) p = map_of row p"
  by (induction hs arbitrary: row) (auto simp: AList.update_conv')

lemma example_row_loop_last:
  "p \<notin> (name \<circ> snd) ` set post \<Longrightarrow> name h = p \<Longrightarrow>
   map_of (example_row_loop (pre @ (k, h) # post) row) p
     = Some (get_type_example (get_data_type h))"
  by (induction pre arbitrary: row) (auto simp: AList.update_conv' example_row_loop_other)

lemma schema_sheets_loop_map_of:
  "distinct (map fst shs) \<Longrightarrow>
   map_of (schema_sheets_loop shs acc) n =
     (case map_of shs n of None \<Rightarrow> map_of acc n | Some sheet \<Rightarrow> Some (sheet_schema_of sheet))"
proof (induction shs arbitrary: acc)
  case Nil
  show ?case by simp
next
  case (Cons a shs)
  obtain n0 s0 where a: "a = (n0, s0)" by (cases a)
  with Cons.prems have d: "distinct (map fst shs)" and n0: "n0 \<notin> fst ` set shs" by auto
  from n0 have "map_of shs n0 = None" by (simp add: map_of_eq_None_iff)
  with Cons.IH [OF d, of "AList.update n0 (sheet_schema_of s0) acc"] a show ?case
    by (auto simp: AList.update_conv' split: option.splits)
qed

lemma template_sheets_loop_ok:
  "set names \<subseteq> fst ` set shs \<Longrightarrow> \<exists>d. template_sheets_loop shs names acc = Inr d"
proof (induction names arbitrary: acc)
  case Nil
  show ?case by simp
next
  case (Cons n names)
  then have "map_of shs n \<noteq> None" by (simp add: map_of_eq_None_iff)
  with Cons show ?case by auto
qed

lemma template_sheets_loop_map_of:
  "template_sheets_loop shs names acc = Inr d \<Longrightarrow>
   map_of d n =
     (if n \<in> set names then map_option template_sheet_data (map_of shs n) else map_of acc n)"
proof (induction names arbitrary: acc)
  case Nil
  then show ?case by simp
next
  case (Cons n0 names)
  then obtain s0 where s0: "map_of shs n0 = Some s0"
    and rest: "template_sheets_loop shs names (AList.update n0 (template_sheet_data s0) acc) = Inr d"
    by (auto split: option.splits)
  from Cons.IH [OF rest] s0 show ?case
    by (auto simp: AList.update_conv')
qed

lemma generate_yaml_template_ok: "\<exists>t. generate_yaml_template self = Inr t"
proof -
  from template_sheets_loop_ok [of "map fst (get_sheets (schema_structure self))"
      "get_sheets (schema_structure self)" "[]"]
  obtain d where "template_sheets_loop (get_sheets (schema_structure self))
      (map fst (get_sheets (schema_structure self))) [] = Inr d"
    by auto
  then show ?thesis by (simp add: generate_yaml_template_def Let_def)
qed

lemma map_to_json_schema_type_table:
  "map_to_json_schema_type ''string'' = TypeName ''string''"
  "map_to_json_schema_type ''integer'' = TypeName ''integer''"
  "map_to_json_schema_type ''number'' = TypeName ''number''"
  "map_to_json_schema_type ''boolean'' = TypeName ''boolean''"
  "map_to_json_schema_type ''datetime'' = TypeName ''string''"
  "map_to_json_schema_type ''null'' = TypeNames [''null'', ''string'']"
  by (simp_all add: map_to_json_schema_type_def type_map_def)

lemma map_to_json_schema_type_default:
  "dt \<notin> set [''string'', ''integer'', ''number'', ''boolean'', ''datetime'', ''null'']
   \<Longrightarrow> map_to_json_schema_type dt = TypeName ''string''"
  by (simp add: map_to_json_schema_type_def type_map_def)

lemma to_json_schema_lookup:
  assumes "distinct (map fst (get_sheets (schema_structure self)))"
    and "map_of (get_sheets (schema_structure self)) sheet_name = Some sheet"
  shows "map_of (data_properties (data_property (to_json_schema self))) sheet_name
           = Some (sheet_schema_of sheet)"
  using assms by (simp add: to_json_schema_def schema_sheets_loop_map_of)

lemma closed_item_schema:
  assumes "Some k \<notin> fst ` set (properties sch)" and "\<not> additionalProperties sch"
  shows "\<not> item_conforms sch (JObj ((k, v) # kvs))"
  using assms by (simp add: item_conforms_def)

text \<open>
  Claim C8. For a sheet of the structure (a dictionary: sheet names are distinct),
  \<open>to_json_schema\<close> emits an \<open>array\<close> schema whose items are objects with
  \<open>additionalProperties\<close> false, whose property names are exactly the header names of the
  sheet, each property typed by \<open>_map_to_json_schema_type\<close> from the data type of a header
  of that name (\<open>string\<close> when the header has none); an object with a key outside the
  header names does not conform; and the type mapping is the fixed table, with \<open>string\<close>
  for any other tag.
\<close>

theorem to_json_schema_sheet:
  assumes "distinct (map fst (get_sheets (schema_structure self)))"
    and "map_of (get_sheets (schema_structure self)) sheet_name = Some sheet"
  shows "\<exists>sch. map_of (data_properties (data_property (to_json_schema self))) sheet_name = Some sch
     \<and> sheet_schema_type sch = ''array'' \<and> items_type (items sch) = ''object''
     \<and> \<not> additionalProperties (items sch)
     \<and> fst ` set (properties (items sch)) = (name \<circ> snd) ` set (get_headers sheet)
     \<and> (\<forall>(p, ps) \<in> set (properties (items sch)).
           \<exists>(k, h) \<in> set (get_headers sheet).
             name h = p \<and> prop_type ps = map_to_json_schema_type (get_data_type h))
     \<and> (\<forall>k v kvs. Some k \<notin> (name \<circ> snd) ` set (get_headers sheet)
           \<longrightarrow> \<not> item_conforms (items sch) (JObj ((k, v) # kvs)))
     \<and> map_to_json_schema_type ''string'' = TypeName ''string''
     \<and> map_to_json_schema_type ''integer'' = TypeName ''integer''
     \<and> map_to_json_schema_type ''number'' = TypeName ''number''
     \<and> map_to_json_schema_type ''boolean'' = TypeName ''boolean''
     \<and> map_to_json_schema_type ''datetime'' = TypeName ''string''
     \<and> map_to_json_schema_type ''null'' = TypeNames [''null'', ''string'']
     \<and> (dt \<notin> set [''string'', ''integer'', ''number'', ''boolean'', ''datetime'', ''null'']
           \<longrightarrow> map_to_json_schema_type dt = TypeName ''string'')"
proof -
  let ?sch = "sheet_schema_of sheet"
  have keys: "fst ` set (properties (items ?sch)) = (name \<circ> snd) ` set (get_headers sheet)"
    by (simp add: sheet_schema_of_def properties_loop_keys)
  have typed: "\<exists>(k, h) \<in> set (get_headers sheet).
        name h = p \<and> prop_type ps = map_to_json_schema_type (get_data_type h)"
    if "(p, ps) \<in> set (properties (items ?sch))" for p ps
  proof -
    have "distinct (map fst (properties (items ?sch)))"
      by (simp add: sheet_schema_of_def properties_loop_distinct)
    with that have "map_of (properties_loop (get_headers sheet) []) p = Some ps"
      by (simp add: sheet_schema_of_def)
    from properties_loop_from_header [OF this] show ?thesis
      by (auto simp: property_of_def)
  qed
  have closed: "\<not> item_conforms (items ?sch) (JObj ((k, v) # kvs))"
    if "Some k \<notin> (name \<circ> snd) ` set (get_headers sheet)" for k v kvs
    using that keys by (intro closed_item_schema) (simp_all add: sheet_schema_of_def)
  have "sheet_schema_type ?sch = ''array'' \<and> items_type (items ?sch) = ''object''
     \<and> \<not> additionalProperties (items ?sch)"
    by (simp add: sheet_schema_of_def)
  with to_json_schema_lookup [OF assms] keys typed closed show ?thesis
    using map_to_json_schema_type_default [of dt]
    by (auto simp: map_to_json_schema_type_table)
qed


theorem to_json_schema_sheet_witness:
  "distinct (map fst (get_sheets (schema_structure sample_schema)))
   \<and> map_of (data_properties (data_property (to_json_schema sample_schema))) ''Sheet2''
       = Some \<lparr>sheet_schema_type = ''array'',
                items = \<lparr>items_type = ''object'',
                  properties =
                    [(Some ''Product'', \<lparr>prop_type = TypeName ''string'',
                        prop_description = ''Column A - Product''\<rparr>),
                     (Some ''Price'', \<lparr>prop_type = TypeName ''number'',
                        prop_description = ''Column B - Price''\<rparr>)],
                  additionalProperties = False\<rparr>\<rparr>
   \<and> \<not> item_conforms (items (sheet_schema_of (snd (get_sheets (schema_structure sample_schema) ! 1))))
         (JObj [(''Colour'', JStr ''red'')])
   \<and> map_to_json_schema_type ''timedelta'' = TypeName ''string''"
proof -
  let ?sheet = "snd (get_sheets (schema_structure sample_schema) ! 1)"
  have d: "distinct (map fst (get_sheets (schema_structure sample_schema)))"
    by code_simp
  have m: "map_of (get_sheets (schema_structure sample_schema)) ''Sheet2'' = Some ?sheet"
    by code_simp
  have v: "map_of (data_properties (data_property (to_json_schema sample_schema))) ''Sheet2''
       = Some \<lparr>sheet_schema_type = ''array'',
                items = \<lparr>items_type = ''object'',
                  properties =
                    [(Some ''Product'', \<lparr>prop_type = TypeName ''string'',
                        prop_description = ''Column A - Product''\<rparr>),
                     (Some ''Price'', \<lparr>prop_type = TypeName ''number'',
                        prop_description = ''Column B - Price''\<rparr>)],
                  additionalProperties = False\<rparr>\<rparr>"
    by code_simp
  have n: "Some ''Colour'' \<notin> (name \<circ> snd) ` set (get_headers ?sheet)"
    by code_simp
  have t: "''timedelta'' \<notin> set [''string'', ''integer'', ''number'', ''boolean'', ''datetime'', ''null'']"
    by simp
  from to_json_schema_sheet [OF d m, where dt = "''timedelta''"] obtain sch where
    "map_of (data_properties (data_property (to_json_schema sample_schema))) ''Sheet2'' = Some sch"
    and "\<forall>k v kvs. Some k \<notin> (name \<circ> snd) ` set (get_headers ?sheet)
           \<longrightarrow> \<not> item_conforms (items sch) (JObj ((k, v) # kvs))"
    and dflt: "''timedelta'' \<notin> set [''string'', ''integer'', ''number'', ''boolean'', ''datetime'', ''null'']
           \<longrightarrow> map_to_json_schema_type ''timedelta'' = TypeName ''string''"
    by blast
  with n to_json_schema_lookup [OF d m]
  have "\<not> item_conforms (items (sheet_schema_of ?sheet)) (JObj [(''Colour'', JStr ''red'')])"
    by auto
  with d v dflt t show ?thesis by simp
qed

lemma one_entry_per_key:
  "distinct (map fst xs) \<Longrightarrow> x \<in> fst ` set xs \<Longrightarrow> length (filter (\<lambda>(p, v). p = x) xs) = 1"
proof (induction xs)
  case Nil
  then show ?case by simp
next
  case (Cons a xs)
  show ?case
  proof (cases "fst a = x")
    case True
    with Cons.prems have "x \<notin> fst ` set xs" by auto
    then have "filter (\<lambda>(p, v). p = x) xs = []"
      by (force simp: filter_empty_conv)
    with True show ?thesis by (simp add: case_prod_unfold)
  next
    case False
    with Cons show ?thesis by (auto simp: case_prod_unfold)
  qed
qed

text \<open>
  Claim C9. When two columns of a sheet have the same header name, the schema of the sheet
  has one property of that name, with the type and description of the last column of that
  name; \<open>generate_yaml_template\<close> returns without error, and its example record for the
  sheet has one key of that name, with the placeholder of that last column.
\<close>

theorem duplicate_header_names_collapse:
  assumes "distinct (map fst (get_sheets (schema_structure self)))"
    and "map_of (get_sheets (schema_structure self)) sheet_name = Some sheet"
    and "get_headers sheet = pre @ (k1, h1) # mid @ (k2, h2) # post"
    and "name h1 = name h2"
    and "name h2 \<notin> (name \<circ> snd) ` set post"
  shows "\<exists>sch t row.
       map_of (data_properties (data_property (to_json_schema self))) sheet_name = Some sch
     \<and> map_of (properties (items sch)) (name h2) = Some (property_of h2)
     \<and> length (filter (\<lambda>(p, ps). p = name h2) (properties (items sch))) = 1
     \<and> generate_yaml_template self = Inr t
     \<and> map_of (template_data t) sheet_name = Some [row]
     \<and> map_of row (name h2) = Some (get_type_example (get_data_type h2))
     \<and> length (filter (\<lambda>(p, v). p = name h2) row) = 1"
proof -
  let ?hs = "get_headers sheet"
  let ?props = "properties_loop ?hs []"
  let ?row = "example_row_loop ?hs []"
  have hs: "?hs = (pre @ (k1, h1) # mid) @ (k2, h2) # post"
    using assms(3) by simp
  have mem: "name h2 \<in> (name \<circ> snd) ` set ?hs"
    unfolding hs by (simp add: image_Un)
  have p1: "map_of ?props (name h2) = Some (property_of h2)"
    unfolding hs by (rule properties_loop_last [OF assms(5)]) simp
  have p2: "length (filter (\<lambda>(p, ps). p = name h2) ?props) = 1"
    using mem by (intro one_entry_per_key) (simp_all add: properties_loop_distinct properties_loop_keys)
  have r1: "map_of ?row (name h2) = Some (get_type_example (get_data_type h2))"
    unfolding hs by (rule example_row_loop_last [OF assms(5)]) simp
  have r2: "length (filter (\<lambda>(p, v). p = name h2) ?row) = 1"
    using mem by (intro one_entry_per_key) (simp_all add: example_row_loop_distinct example_row_loop_keys)
  from generate_yaml_template_ok [of self] obtain t where t: "generate_yaml_template self = Inr t"
    by blast
  then have loop: "template_sheets_loop (get_sheets (schema_structure self))
      (map fst (get_sheets (schema_structure self))) [] = Inr (template_data t)"
    by (auto simp: generate_yaml_template_def Let_def split: sum.splits)
  from assms(2) have "sheet_name \<in> set (map fst (get_sheets (schema_structure self)))"
    by (auto dest: map_of_SomeD intro: rev_image_eqI)
  with template_sheets_loop_map_of [OF loop, of sheet_name] assms(2) assms(3)
  have d: "map_of (template_data t) sheet_name = Some [?row]"
    by (simp add: template_sheet_data_def)
  from to_json_schema_lookup [OF assms(1,2)] p1 p2 t d r1 r2 show ?thesis
    by (auto simp: sheet_schema_of_def)
qed

theorem duplicate_header_names_collapse_witness:
  "get_headers duplicate_sheet =
     [(KInt 1, \<lparr>name = Some ''Amount'', column_letter = Some ''A'', data_type = Some ''integer''\<rparr>),
      (KInt 2, \<lparr>name = Some ''Amount'', column_letter = Some ''B'', data_type = Some ''boolean''\<rparr>),
      (KInt 3, \<lparr>name = Some ''Note'', column_letter = Some ''C'', data_type = Some ''null''\<rparr>)]
   \<and> map_of (data_properties (data_property (to_json_schema duplicate_schema))) ''Ledger''
     = Some \<lparr>sheet_schema_type = ''array'',
              items = \<lparr>items_type = ''object'',
                properties =
                  [(Some ''Amount'', \<lparr>prop_type = TypeName ''boolean'',
                      prop_description = ''Column B - Amount''\<rparr>),
                   (Some ''Note'', \<lparr>prop_type = TypeNames [''null'', ''string''],
                      prop_description = ''Column C - Note''\<rparr>)],
                additionalProperties = False\<rparr>\<rparr>
   \<and> generate_yaml_template duplicate_schema
       = Inr \<lparr>template_schema = schema_structure duplicate_schema,
              template_data =
                [(''Ledger'', [[(Some ''Amount'', JBool False), (Some ''Note'', JNull)]])]\<rparr>
   \<and> (\<exists>sch. map_of (data_properties (data_property (to_json_schema duplicate_schema))) ''Ledger''
           = Some sch
         \<and> length (filter (\<lambda>(p, ps). p = Some ''Amount'') (properties (items sch))) = 1)"
proof -
  let ?h1 = "\<lparr>name = Some ''Amount'', column_letter = Some ''A'', data_type = Some ''integer''\<rparr>"
  let ?h2 = "\<lparr>name = Some ''Amount'', column_letter = Some ''B'', data_type = Some ''boolean''\<rparr>"
  let ?h3 = "\<lparr>name = Some ''Note'', column_letter = Some ''C'', data_type = Some ''null''\<rparr>"
  have d: "distinct (map fst (get_sheets (schema_structure duplicate_schema)))"
    by code_simp
  have m: "map_of (get_sheets (schema_structure duplicate_schema)) ''Ledger'' = Some duplicate_sheet"
    by (simp add: duplicate_schema_def get_sheets_def)
  have hs: "get_headers duplicate_sheet = [] @ (KInt 1, ?h1) # [] @ (KInt 2, ?h2) # [(KInt 3, ?h3)]"
    by (simp add: duplicate_sheet_def get_headers_def)
  have eq: "name ?h1 = name ?h2"
    by simp
  have last: "name ?h2 \<notin> (name \<circ> snd) ` set [(KInt 3, ?h3)]"
    by simp
  have s: "map_of (data_properties (data_property (to_json_schema duplicate_schema))) ''Ledger''
     = Some \<lparr>sheet_schema_type = ''array'',
              items = \<lparr>items_type = ''object'',
                properties =
                  [(Some ''Amount'', \<lparr>prop_type = TypeName ''boolean'',
                      prop_description = ''Column B - Amount''\<rparr>),
                   (Some ''Note'', \<lparr>prop_type = TypeNames [''null'', ''string''],
                      prop_description = ''Column C - Note''\<rparr>)],
                additionalProperties = False\<rparr>\<rparr>"
    by code_simp
  have t: "generate_yaml_template duplicate_schema
       = Inr \<lparr>template_schema = schema_structure duplicate_schema,
              template_data =
                [(''Ledger'', [[(Some ''Amount'', JBool False), (Some ''Note'', JNull)]])]\<rparr>"
    by code_simp
  from duplicate_header_names_collapse [OF d m hs eq last]
  have "\<exists>sch. map_of (data_properties (data_property (to_json_schema duplicate_schema))) ''Ledger''
           = Some sch
         \<and> length (filter (\<lambda>(p, ps). p = Some ''Amount'') (properties (items sch))) = 1"
    by auto
  with hs s t show ?thesis by simp
qed

subsection \<open>The header-row attribute of an instance\<close>

text \<open>
  Claim C10. A call of \<open>extract_structure\<close>, \<open>export_structure\<close>, \<open>validate_structure\<close>,
  \<open>compare_structure\<close> or \<open>export_to_yaml\<close>, with or without a header-row override, leaves
  the attribute \<open>header_row\<close> of the instance as it was, and an override is the header row
  of the structure extracted in that call. After \<open>load_structure\<close> the attribute is the
  \<open>header_row\<close> of the loaded document's file properties when the document has one, and is
  unchanged otherwise (also when the call raises).
\<close>

theorem header_row_attribute_frame:
  "self_header_row (fst (after_call (ExtractStructure hr_arg) (self, fs))) = self_header_row self
   \<and> self_header_row (fst (after_call (ExportStructure output_file hr_arg) (self, fs)))
       = self_header_row self
   \<and> self_header_row (fst (after_call (ValidateStructure expected_arg hr_arg) (self, fs)))
       = self_header_row self
   \<and> self_header_row (fst (after_call (CompareStructure structure_file hr_arg) (self, fs)))
       = self_header_row self
   \<and> self_header_row (fst (after_call (ExportToYaml output_file hr_arg) (self, fs)))
       = self_header_row self
   \<and> self_header_row (fst (after_call (LoadStructure structure_file) (self, fs)))
       = (case fs structure_file of
            Some (JsonFile st) \<Rightarrow>
              (case get_header_row st of None \<Rightarrow> self_header_row self | Some h \<Rightarrow> h)
          | _ \<Rightarrow> self_header_row self)
   \<and> (extract_structure self (Some h) = Inr st' \<longrightarrow> get_header_row st' = Some h)"
proof -
  have "self_header_row (fst (after_call (LoadStructure structure_file) (self, fs)))
       = (case fs structure_file of
            Some (JsonFile st) \<Rightarrow>
              (case get_header_row st of None \<Rightarrow> self_header_row self | Some h \<Rightarrow> h)
          | _ \<Rightarrow> self_header_row self)"
    by (simp add: load_structure_def json_load_def get_header_row_def Let_def
        split: option.splits file_content.splits)
  moreover have "get_header_row st' = Some h" if "extract_structure self (Some h) = Inr st'"
    using extract_structure_header_row [OF that] by (simp add: effective_header_row_def)
  ultimately show ?thesis
    by (simp split: sum.splits)
qed

theorem header_row_attribute_frame_witness:
  "\<not> isl (extract_structure sample_sync (Some 3))
   \<and> get_header_row (projr (extract_structure sample_sync (Some 3))) = Some 3
   \<and> self_header_row sample_sync = 1
   \<and> self_header_row (fst (after_call (ExtractStructure (Some 3)) (sample_sync, sample_files))) = 1
   \<and> self_header_row (fst (after_call (LoadStructure ''/tmp/row3.json'') (sample_sync, sample_files))) = 3
   \<and> self_header_row (fst (after_call (LoadStructure ''/tmp/bare.json'') (sample_sync, sample_files))) = 1"
proof -
  have a: "\<not> isl (extract_structure sample_sync (Some 3))" "self_header_row sample_sync = 1"
    by code_simp+
  then have e: "extract_structure sample_sync (Some 3)
      = Inr (projr (extract_structure sample_sync (Some 3)))"
    by (cases "extract_structure sample_sync (Some 3)") simp_all
  have f: "sample_files ''/tmp/row3.json'' =
       Some (JsonFile (sample_structure\<lparr>file_properties :=
             Some \<lparr>filename = Some ''sample.xlsx'', sheet_count = Some 2, header_row = Some 3\<rparr>\<rparr>))"
     "sample_files ''/tmp/bare.json'' = Some (JsonFile empty_dict)"
    by (simp_all add: sample_files_def)
  from header_row_attribute_frame [where hr_arg = "Some 3" and self = sample_sync
         and fs = sample_files and structure_file = "''/tmp/row3.json''" and h = 3
         and st' = "projr (extract_structure sample_sync (Some 3))"]
       header_row_attribute_frame [where hr_arg = "Some 3" and self = sample_sync
         and fs = sample_files and structure_file = "''/tmp/bare.json''"]
  show ?thesis using a e
    by (simp add: f get_header_row_def empty_dict_def)
qed

subsection \<open>validate_data\<close>

lemma best_match_None: "best_match errors = None \<longleftrightarrow> errors = []"
  by (cases errors) (simp_all add: best_match_def)

lemma foldl_pick:
  "foldl (\<lambda>best e'. if P e' best then e' else best) e es \<in> set (e # es)"
  by (induction es arbitrary: e) auto

lemma best_match_member: "best_match errors = Some e \<Longrightarrow> e \<in> set errors"
proof (cases errors)
  case Nil
  assume "best_match errors = Some e"
  with Nil show ?thesis by (simp add: best_match_def)
next
  case (Cons a es)
  assume "best_match errors = Some e"
  with Cons have "e = foldl (\<lambda>best e'. if more_relevant e' best then e' else best) a es"
    by (simp add: best_match_def)
  with foldl_pick [of more_relevant a es] Cons show ?thesis by simp
qed

lemma type_errors_Nil: "type_errors ty inst path = [] \<longleftrightarrow> has_type ty inst"
  by (simp add: type_errors_def has_type_def)

lemma type_errors_name_Nil: "type_errors (TypeName t) inst path = [] \<longleftrightarrow> is_type inst t"
  by (simp add: type_errors_def ensure_list_def)

lemma property_errors_Nil:
  "property_errors props (JObj kvs) path = [] \<longleftrightarrow>
     list_all (\<lambda>(property, subschema).
                (case property of
                   None \<Rightarrow> True
                 | Some p \<Rightarrow>
                     (case map_of kvs p of
                        None \<Rightarrow> True
                      | Some v \<Rightarrow> has_type (prop_type subschema) v))) props"
  by (auto simp: property_errors_def list_all_iff type_errors_Nil split: option.splits)

lemma additional_properties_errors_Nil:
  "additional_properties_errors sch (JObj kvs) path = [] \<longleftrightarrow>
     additionalProperties sch
       \<or> list_all (\<lambda>k. Some k \<in> set (map fst (properties sch))) (map fst kvs)"
  by (auto simp: additional_properties_errors_def find_additional_properties_def
      filter_empty_conv list_all_iff)

lemma item_errors_Nil: "item_errors sch inst path = [] \<longleftrightarrow> item_conforms sch inst"
proof (cases inst)
  case (JObj kvs)
  then show ?thesis
    by (simp add: item_errors_def item_conforms_def type_errors_name_Nil property_errors_Nil
        additional_properties_errors_Nil)
qed (simp_all add: item_errors_def item_conforms_def type_errors_name_Nil property_errors_def
      additional_properties_errors_def)

lemma sheet_errors_Nil: "sheet_errors sch inst path = [] \<longleftrightarrow> sheet_conforms sch inst"
proof (cases inst)
  case (JArr xs)
  have "set xs = snd ` set (enumerate 0 xs)"
    by (metis map_snd_enumerate set_map)
  then have "(\<forall>p \<in> set (enumerate 0 xs). item_conforms (items sch) (snd p))
        \<longleftrightarrow> list_all (item_conforms (items sch)) xs"
    by (auto simp: list_all_iff)
  with JArr show ?thesis
    by (simp add: sheet_errors_def sheet_conforms_def type_errors_name_Nil item_errors_Nil
        case_prod_unfold)
qed (simp_all add: sheet_errors_def sheet_conforms_def type_errors_name_Nil)

lemma data_errors_Nil: "data_errors sch inst path = [] \<longleftrightarrow> data_conforms sch inst"
proof (cases inst)
  case (JObj kvs)
  then show ?thesis
    by (auto simp: data_errors_def data_conforms_def type_errors_name_Nil sheet_errors_Nil
        list_all_iff split: option.splits)
qed (simp_all add: data_errors_def data_conforms_def type_errors_name_Nil)

lemma iter_errors_Nil: "iter_errors sch inst = [] \<longleftrightarrow> conforms sch inst"
proof (cases inst)
  case (JObj kvs)
  then show ?thesis
    by (simp add: iter_errors_def conforms_def type_errors_name_Nil data_errors_Nil
        split: option.splits)
qed (simp_all add: iter_errors_def conforms_def type_errors_name_Nil)

lemma validate_data_cases:
  "validate_data self data =
     (case best_match (iter_errors (to_json_schema self) (JObj [(''data'', data)])) of
        None \<Rightarrow> [] | Some e \<Rightarrow> [e])"
  by (simp add: validate_data_def jsonschema_validate_def Let_def split: option.splits)

text \<open>
  Claim C1, as amended. \<open>validate_data\<close> returns at most one error: the empty list exactly
  when the data conforms to the schema of \<open>to_json_schema\<close> (that is, when the validator
  finds no error), and otherwise the one error that \<open>jsonschema.validate\<close> raises, which is
  one of the errors the validator finds.
\<close>

theorem validate_data_one_error:
  "length (validate_data self data) \<le> 1
   \<and> (validate_data self data = []
        \<longleftrightarrow> conforms (to_json_schema self) (JObj [(''data'', data)]))
   \<and> (validate_data self data = []
        \<longleftrightarrow> iter_errors (to_json_schema self) (JObj [(''data'', data)]) = [])
   \<and> set (validate_data self data)
        \<subseteq> set (iter_errors (to_json_schema self) (JObj [(''data'', data)]))
   \<and> validate_data self data =
       (case best_match (iter_errors (to_json_schema self) (JObj [(''data'', data)])) of
          None \<Rightarrow> [] | Some e \<Rightarrow> [e])"
proof -
  let ?errors = "iter_errors (to_json_schema self) (JObj [(''data'', data)])"
  show ?thesis
  proof (cases "best_match ?errors")
    case None
    then have "?errors = []" by (simp add: best_match_None)
    with None show ?thesis
      by (simp add: validate_data_cases iter_errors_Nil [symmetric])
  next
    case (Some e)
    then have "e \<in> set ?errors" by (rule best_match_member)
    moreover from Some have "?errors \<noteq> []" by (auto simp: best_match_def)
    ultimately show ?thesis using Some
      by (simp add: validate_data_cases iter_errors_Nil [symmetric])
  qed
qed

theorem validate_data_one_error_witness:
  "validate_data sample_schema good_data = []
   \<and> conforms (to_json_schema sample_schema) (JObj [(''data'', good_data)])
   \<and> validate_data sample_schema bad_data =
       [ValidationError [Key ''data'', Key ''Sheet2'', Index 0] ''additionalProperties''
          (JObj [(''Product'', JInt 5), (''Colour'', JStr ''red'')])]
   \<and> \<not> conforms (to_json_schema sample_schema) (JObj [(''data'', bad_data)])"
proof -
  have g: "validate_data sample_schema good_data = []"
    by code_simp
  have b: "validate_data sample_schema bad_data =
       [ValidationError [Key ''data'', Key ''Sheet2'', Index 0] ''additionalProperties''
          (JObj [(''Product'', JInt 5), (''Colour'', JStr ''red'')])]"
    by code_simp
  from validate_data_one_error [of sample_schema good_data]
       validate_data_one_error [of sample_schema bad_data] g b
  show ?thesis by simp
qed

text \<open>
  Claim C1 as stated fails: for data that breaks the schema in two places the validator
  finds two errors, and \<open>validate_data\<close> returns one of them.
\<close>

theorem validate_data_all_errors_counterexample:
  "iter_errors (to_json_schema sample_schema) (JObj [(''data'', bad_data)]) =
     [ValidationError [Key ''data'', Key ''Sheet2'', Index 0, Key ''Product''] ''type'' (JInt 5),
      ValidationError [Key ''data'', Key ''Sheet2'', Index 0] ''additionalProperties''
        (JObj [(''Product'', JInt 5), (''Colour'', JStr ''red'')])]
   \<and> validate_data sample_schema bad_data =
     [ValidationError [Key ''data'', Key ''Sheet2'', Index 0] ''additionalProperties''
        (JObj [(''Product'', JInt 5), (''Colour'', JStr ''red'')])]
   \<and> validate_data sample_schema bad_data
       \<noteq> iter_errors (to_json_schema sample_schema) (JObj [(''data'', bad_data)])"
  by code_simp

end
